theory Spec2Isabelle
  imports Complex_Main
begin

section \<open>Route tracking of omim (routing/route.cpp)\<close>

text \<open>
  A shallow embedding of \<^verbatim>\<open>routing::Route\<close>. Coordinates, distances and times are
  \<^verbatim>\<open>double\<close> in the source and \<open>real\<close> here; vertex indices (\<^verbatim>\<open>uint32_t\<close>, \<^verbatim>\<open>size_t\<close>)
  are \<open>nat\<close>, with the truncation written out where the source casts. Iterators into a
  vector are positions (\<open>nat\<close>), the end iterator being the length of the vector.

  Every way the source can stop without a result is a value of \<open>fault\<close>.
\<close>

datatype fault =
    AssertFailed        \<comment> \<open>an \<^verbatim>\<open>ASSERT\<close> of a build that keeps them\<close>
  | OutOfRange          \<comment> \<open>a read outside a vector\<close>
  | DivisionByZero
  | CastOutOfRange      \<comment> \<open>a \<^verbatim>\<open>double\<close> that does not fit \<^verbatim>\<open>uint32_t\<close>\<close>
  | JsonFault string    \<comment> \<open>a member that is absent or of the wrong type\<close>

datatype PointD = PointD (pt_x: real) (pt_y: real)

record Iter =
  m_pt :: PointD
  m_ind :: nat
  it_valid :: bool

record FollowedPolyline =
  fp_points :: "PointD list"
  m_current :: Iter

record RoutingSettings =
  m_matchRoute :: bool
  m_matchingThresholdM :: real
  m_keepPedestrianInfo :: bool

record TurnItem =
  m_index :: nat
  m_turn :: nat
  m_exitNum :: nat
  m_keepAnyway :: bool
  m_pedestrianTurn :: nat
  m_sourceName :: string
  m_targetName :: string

type_synonym TTimeItem = "nat \<times> real"
type_synonym TStreetItem = "nat \<times> string"

record Route =
  m_router :: string
  m_routingSettings :: RoutingSettings
  m_name :: string
  m_poly :: FollowedPolyline
  m_simplifiedPoly :: FollowedPolyline
  m_currentTime :: real
  m_turns :: "TurnItem list"
  m_times :: "TTimeItem list"
  m_streets :: "TStreetItem list"
  m_absentCountries :: "string list"

record GpsInfo =
  m_timestamp :: real
  m_latitude :: real
  m_longitude :: real
  m_horizontalAccuracy :: real
  m_speed :: real
  m_bearing :: real

record RouteMatchingInfo =
  m_matchedPosition :: PointD
  m_indexInRoute :: nat
  m_distanceFromBegin :: real

datatype RectD = RectD (r_minX: real) (r_minY: real) (r_maxX: real) (r_maxY: real)

text \<open>
  What route.cpp calls and the sources do not hold (the geometry library, the
  \<^verbatim>\<open>FollowedPolyline\<close> methods, the turns generator, the assertion macro) is a field of
  the environment: every theorem below holds for every environment.
  \<open>debug\<close> says whether \<^verbatim>\<open>ASSERT\<close> is compiled in.
\<close>

record env =
  debug :: bool
  YToLat :: "real \<Rightarrow> real"
  XToLon :: "real \<Rightarrow> real"
  FromLatLon :: "real \<Rightarrow> real \<Rightarrow> PointD"
  DistanceOnEarth :: "PointD \<Rightarrow> PointD \<Rightarrow> real"
  MetresToXY :: "real \<Rightarrow> real \<Rightarrow> real \<Rightarrow> RectD"
  AlmostEqualULPs :: "real \<Rightarrow> real \<Rightarrow> bool"
  AlmostEqualULPsPt :: "PointD \<Rightarrow> PointD \<Rightarrow> bool"
  AngleTo :: "PointD \<Rightarrow> PointD \<Rightarrow> real"
  RadToDeg :: "real \<Rightarrow> real"
  AngleToBearing :: "real \<Rightarrow> real"
  HasSpeed :: "GpsInfo \<Rightarrow> bool"
  CalculateMercatorDistanceAlongPath :: "nat \<Rightarrow> nat \<Rightarrow> PointD list \<Rightarrow> real"
  GetDistanceM :: "FollowedPolyline \<Rightarrow> Iter \<Rightarrow> Iter \<Rightarrow> real"
  GetIterToIndex :: "FollowedPolyline \<Rightarrow> nat \<Rightarrow> Iter"
  GetTotalDistanceM :: "FollowedPolyline \<Rightarrow> real"
  GetMercatorDistanceFromBegin :: "FollowedPolyline \<Rightarrow> real"
  SegProj :: "PointD list \<Rightarrow> nat \<Rightarrow> PointD \<Rightarrow> PointD"
  Simplify :: "PointD list \<Rightarrow> PointD list"
  DefaultTurnItem :: TurnItem

definition ASSERT :: "env \<Rightarrow> bool \<Rightarrow> fault + 'a \<Rightarrow> fault + 'a" where
  "ASSERT e c k = (if debug e \<and> \<not> c then Inl AssertFailed else k)"

definition fbind :: "fault + 'a \<Rightarrow> ('a \<Rightarrow> fault + 'b) \<Rightarrow> fault + 'b" where
  "fbind m f = (case m of Inl err \<Rightarrow> Inl err | Inr v \<Rightarrow> f v)"

subsection \<open>\<^verbatim>\<open>std::upper_bound\<close>\<close>

text \<open>
  The library's binary search: \<open>first\<close> and \<open>count\<close> delimit the range still searched,
  and \<open>cmp v\<close> is the comparison the caller passes, applied to the searched value and
  an element.
\<close>

function upper_bound_loop :: "('v \<Rightarrow> 'a \<Rightarrow> bool) \<Rightarrow> 'v \<Rightarrow> 'a list \<Rightarrow> nat \<Rightarrow> nat \<Rightarrow> nat" where
  "upper_bound_loop cmp v xs first count =
     (if count = 0 then first
      else if \<not> cmp v (xs ! (first + count div 2))
      then upper_bound_loop cmp v xs (first + count div 2 + 1) (count - (count div 2 + 1))
      else upper_bound_loop cmp v xs first (count div 2))"
  by pat_completeness auto
termination
  by (relation "measure (\<lambda>(cmp, v, xs, first, count). count)") auto

declare upper_bound_loop.simps [simp del]

definition upper_bound :: "('v \<Rightarrow> 'a \<Rightarrow> bool) \<Rightarrow> 'v \<Rightarrow> 'a list \<Rightarrow> nat" where
  "upper_bound cmp v xs = upper_bound_loop cmp v xs 0 (length xs)"

subsection \<open>Maneuver table\<close>

definition uint32_of_size :: "nat \<Rightarrow> nat" where
  "uint32_of_size n = n mod 2 ^ 32"

text \<open>\<^verbatim>\<open>Route::GetCurrentTurn()\<close>: the position in \<open>m_turns\<close> the search returns.\<close>

definition GetCurrentTurn :: "env \<Rightarrow> Route \<Rightarrow> fault + nat" where
  "GetCurrentTurn e r =
     ASSERT e (m_turns r \<noteq> [])
       (Inr (upper_bound (\<lambda>lhs rhs. lhs < m_index rhs)
               (uint32_of_size (m_ind (m_current (m_poly r)))) (m_turns r)))"

text \<open>
  \<^verbatim>\<open>Route::GetCurrentTurn(distanceToTurnMeters, turn)\<close> and \<^verbatim>\<open>Route::GetNextTurn\<close>:
  the result is the returned flag with the two output parameters, which a call that
  returns \<^verbatim>\<open>false\<close> early leaves as the caller passed them (\<open>out\<close>).
\<close>

definition GetCurrentTurnDist :: "env \<Rightarrow> Route \<Rightarrow> real \<times> TurnItem \<Rightarrow> fault + (bool \<times> real \<times> TurnItem)" where
  "GetCurrentTurnDist e r out =
     fbind (GetCurrentTurn e r) (\<lambda>it.
       if it = length (m_turns r)
       then ASSERT e False (Inr (False, out))
       else Inr (True,
              GetDistanceM e (m_poly r) (m_current (m_poly r))
                (GetIterToIndex e (m_poly r) (m_index (m_turns r ! it))),
              m_turns r ! it))"

definition GetNextTurn :: "env \<Rightarrow> Route \<Rightarrow> fault + (bool \<times> real \<times> TurnItem)" where
  "GetNextTurn e r =
     fbind (GetCurrentTurn e r) (\<lambda>it.
       ASSERT e (it \<noteq> length (m_turns r))
         (if it = length (m_turns r) \<or> it + 1 = length (m_turns r)
          then Inr (False, 0, DefaultTurnItem e)
          else Inr (True,
                 GetDistanceM e (m_poly r) (m_current (m_poly r))
                   (GetIterToIndex e (m_poly r) (m_index (m_turns r ! (it + 1)))),
                 m_turns r ! (it + 1))))"

subsection \<open>Timing table\<close>

text \<open>
  The conversion of a \<^verbatim>\<open>double\<close> to \<^verbatim>\<open>uint32_t\<close> drops the fraction; a value whose
  integer part does not fit is undefined in the source and a fault here.
\<close>

definition uint32_of_double :: "real \<Rightarrow> fault + nat" where
  "uint32_of_double d = (if - 1 < d \<and> d < 2 ^ 32 then Inr (nat \<lfloor>d\<rfloor>) else Inl CastOutOfRange)"

definition GetTotalTimeSec :: "Route \<Rightarrow> fault + nat" where
  "GetTotalTimeSec r =
     (if m_times r = [] then Inr 0 else uint32_of_double (snd (last (m_times r))))"

text \<open>\<^verbatim>\<open>m_poly.GetPolyline().GetPoint(i)\<close>; an index outside the polyline is a fault.\<close>

definition GetPoint :: "PointD list \<Rightarrow> nat \<Rightarrow> fault + PointD" where
  "GetPoint pts i = (if i < length pts then Inr (pts ! i) else Inl OutOfRange)"

text \<open>The lambda \<^verbatim>\<open>distFn\<close> of \<^verbatim>\<open>GetCurrentTimeToEndSec\<close>.\<close>

definition distFn :: "env \<Rightarrow> FollowedPolyline \<Rightarrow> nat \<Rightarrow> nat \<Rightarrow> real" where
  "distFn e p start finish = GetDistanceM e p (GetIterToIndex e p start) (GetIterToIndex e p finish)"

text \<open>
  \<^verbatim>\<open>Route::GetCurrentTimeToEndSec\<close>. In the interpolating branch a distance that is
  exactly zero would give no finite value to convert: the division is a fault there.
\<close>

definition GetCurrentTimeToEndSec :: "env \<Rightarrow> Route \<Rightarrow> fault + nat" where
  "GetCurrentTimeToEndSec e r =
     (let polySz = length (fp_points (m_poly r)); cur = m_current (m_poly r) in
      if m_times r = [] \<or> polySz = 0
      then ASSERT e (m_times r \<noteq> []) (ASSERT e (polySz \<noteq> 0) (Inr 0))
      else
        let idx = upper_bound (\<lambda>v item. v < fst item) (m_ind cur) (m_times r) in
        if idx = length (m_times r) then Inr 0
        else
          let time = snd (m_times r ! idx) - (if idx > 0 then snd (m_times r ! (idx - 1)) else 0) in
          ASSERT e (fst (m_times r ! idx) < polySz)
            (let dist = distFn e (m_poly r) (if idx > 0 then fst (m_times r ! (idx - 1)) else 0)
                          (fst (m_times r ! idx)) in
             if \<not> AlmostEqualULPs e dist 0
             then
               fbind (GetPoint (fp_points (m_poly r)) (m_ind cur)) (\<lambda>p.
               fbind (GetTotalTimeSec r) (\<lambda>total.
                 let distRemain = distFn e (m_poly r) (m_ind cur) (fst (m_times r ! idx))
                                    - DistanceOnEarth e (m_pt cur) p in
                 if dist = 0 then Inl DivisionByZero
                 else uint32_of_double
                        ((real total - snd (m_times r ! idx)) + time * (distRemain / dist))))
             else
               fbind (GetTotalTimeSec r) (\<lambda>total.
                 uint32_of_double (real total - snd (m_times r ! idx)))))"

subsection \<open>Street table\<close>

definition kSteetNameLinkMeters :: real where
  "kSteetNameLinkMeters = 400"

text \<open>
  The loop of \<^verbatim>\<open>GetCurrentStreetNameIterAfter\<close>, entered with \<open>prevIter\<close> at the first
  entry and \<open>curIter\<close> one past it. Its condition reads \<^verbatim>\<open>curIter->first\<close>: at the end
  iterator that is a read outside the vector.
\<close>

function street_scan :: "TStreetItem list \<Rightarrow> nat \<Rightarrow> nat \<Rightarrow> nat \<Rightarrow> fault + nat" where
  "street_scan ss ind prevIter curIter =
     (if length ss \<le> curIter then Inl OutOfRange
      else if fst (ss ! curIter) < ind
      then (if curIter + 1 = length ss then Inr (curIter + 1)
            else street_scan ss ind (prevIter + 1) (curIter + 1))
      else Inr (if fst (ss ! curIter) = ind then curIter else prevIter))"
  by pat_completeness auto
termination
  by (relation "measure (\<lambda>(ss, ind, prevIter, curIter). length ss - curIter)") auto

declare street_scan.simps [simp del]

definition GetCurrentStreetNameIterAfter :: "Route \<Rightarrow> Iter \<Rightarrow> fault + nat" where
  "GetCurrentStreetNameIterAfter r iter =
     (if m_streets r = [] then Inr (length (m_streets r))
      else street_scan (m_streets r) (m_ind iter) 0 1)"

definition GetCurrentStreetName :: "Route \<Rightarrow> fault + string" where
  "GetCurrentStreetName r =
     fbind (GetCurrentStreetNameIterAfter r (m_current (m_poly r))) (\<lambda>it.
       Inr (if it = length (m_streets r) then [] else snd (m_streets r ! it)))"

text \<open>The \<^verbatim>\<open>for\<close> loop of \<^verbatim>\<open>GetStreetNameAfterIdx\<close> over the entries from \<open>it\<close> on.\<close>

fun street_name_loop :: "env \<Rightarrow> FollowedPolyline \<Rightarrow> Iter \<Rightarrow> TStreetItem list \<Rightarrow> string" where
  "street_name_loop e p polyIter [] = []"
| "street_name_loop e p polyIter (s # rest) =
     (if snd s \<noteq> []
      then (if GetDistanceM e p polyIter
                 (GetIterToIndex e p (max (fst s) (uint32_of_size (m_ind polyIter))))
               < kSteetNameLinkMeters
            then snd s else [])
      else street_name_loop e p polyIter rest)"

definition GetStreetNameAfterIdx :: "env \<Rightarrow> Route \<Rightarrow> nat \<Rightarrow> fault + string" where
  "GetStreetNameAfterIdx e r idx =
     (let polyIter = GetIterToIndex e (m_poly r) idx in
      fbind (GetCurrentStreetNameIterAfter r polyIter) (\<lambda>it.
        if it = length (m_streets r) then Inr []
        else Inr (street_name_loop e (m_poly r) polyIter (drop it (m_streets r)))))"

subsection \<open>Matching a fix to the route\<close>

text \<open>
  The \<^verbatim>\<open>do ... while\<close> of \<^verbatim>\<open>GetPolySegAngle\<close>: the index at which it stops, the number
  of points when every later point coincides with \<open>p1\<close>.
\<close>

function seg_scan :: "env \<Rightarrow> PointD \<Rightarrow> PointD list \<Rightarrow> nat \<Rightarrow> nat" where
  "seg_scan e p1 pts i =
     (if AlmostEqualULPsPt e p1 (pts ! i)
      then (if i + 1 < length pts then seg_scan e p1 pts (i + 1) else i + 1)
      else i)"
  by pat_completeness auto
termination
  by (relation "measure (\<lambda>(e, p1, pts, i). length pts - i)") auto

declare seg_scan.simps [simp del]

definition GetPolySegAngle :: "env \<Rightarrow> Route \<Rightarrow> nat \<Rightarrow> fault + real" where
  "GetPolySegAngle e r ind =
     (let pts = fp_points (m_poly r); polySz = length pts in
      if ind + 1 \<ge> polySz then ASSERT e False (Inr 0)
      else
        let p1 = pts ! ind; i = seg_scan e p1 pts (ind + 1) in
        Inr (if i = polySz then 0 else RadToDeg e (AngleTo e p1 (pts ! i))))"

text \<open>
  Modelled from the spec: \<^verbatim>\<open>FollowedPolyline::IsValid\<close>, which is not among the sources
  (``true once constructed from a non-empty point sequence'').
\<close>

definition IsValid :: "FollowedPolyline \<Rightarrow> bool" where
  "IsValid p = (fp_points p \<noteq> [])"

text \<open>
  Modelled from the spec: \<^verbatim>\<open>RouteMatchingInfo::Set\<close>, which is not among the sources
  (the matching result holds the projected point, the vertex index and the distance
  from the begin).
\<close>

definition Set_info :: "PointD \<Rightarrow> nat \<Rightarrow> real \<Rightarrow> RouteMatchingInfo \<Rightarrow> RouteMatchingInfo" where
  "Set_info pt ind distance info =
     info\<lparr>m_matchedPosition := pt, m_indexInRoute := ind, m_distanceFromBegin := distance\<rparr>"

definition MatchLocationToRoute ::
  "env \<Rightarrow> Route \<Rightarrow> GpsInfo \<times> RouteMatchingInfo \<Rightarrow> fault + (GpsInfo \<times> RouteMatchingInfo)" where
  "MatchLocationToRoute e r io =
     (let location = fst io; routeMatchingInfo = snd io in
      if IsValid (m_poly r)
      then
        let iter = m_current (m_poly r);
            locationMerc = FromLatLon e (m_latitude location) (m_longitude location);
            distFromRouteM = DistanceOnEarth e (m_pt iter) locationMerc in
        if distFromRouteM < m_matchingThresholdM (m_routingSettings r)
        then
          let snapped = location\<lparr>m_latitude := YToLat e (pt_y (m_pt iter)),
                                  m_longitude := XToLon e (pt_x (m_pt iter))\<rparr> in
          fbind (if m_matchRoute (m_routingSettings r)
                 then fbind (GetPolySegAngle e r (m_ind iter)) (\<lambda>a.
                        Inr (snapped\<lparr>m_bearing := AngleToBearing e a\<rparr>))
                 else Inr snapped) (\<lambda>location'.
            Inr (location',
                 Set_info (m_pt iter) (m_ind iter) (GetMercatorDistanceFromBegin e (m_poly r))
                   routeMatchingInfo))
        else Inr (location, routeMatchingInfo)
      else Inr (location, routeMatchingInfo))"

subsection \<open>Moving the cursor\<close>

definition kLocationTimeThreshold :: real where
  "kLocationTimeThreshold = 60 * 1"

definition IsPointInside :: "RectD \<Rightarrow> PointD \<Rightarrow> bool" where
  "IsPointInside rect p =
     (r_minX rect \<le> pt_x p \<and> pt_x p \<le> r_maxX rect \<and> r_minY rect \<le> pt_y p \<and> pt_y p \<le> r_maxY rect)"

definition Center :: "RectD \<Rightarrow> PointD" where
  "Center rect = PointD ((r_minX rect + r_maxX rect) / 2) ((r_minY rect + r_maxY rect) / 2)"

text \<open>The candidate with the least score, the earliest of them on a tie.\<close>

fun closest :: "(Iter \<Rightarrow> real) \<Rightarrow> Iter list \<Rightarrow> Iter option" where
  "closest score [] = None"
| "closest score (c # cs) =
     (case closest score cs of
        None \<Rightarrow> Some c
      | Some b \<Rightarrow> if score b < score c then Some b else Some c)"

text \<open>
  Modelled from the spec: \<^verbatim>\<open>FollowedPolyline::UpdateProjectionByPrediction\<close>, which is not
  among the sources. The spec: the search is restricted to the part of the polyline
  ahead of the current cursor; with a predicted distance of at least zero the window is
  narrowed around the current arc length plus that distance; the result is the new
  cursor, or an invalid one when no point of the polyline falls inside the rectangle;
  the vertex index never moves backward. The candidates are the projections of the
  rectangle's centre onto the segments from the cursor's on; the tracker keeps its
  cursor when there is none. The result is the returned cursor and the tracker.
\<close>

definition candidates :: "env \<Rightarrow> FollowedPolyline \<Rightarrow> RectD \<Rightarrow> Iter list" where
  "candidates e p rect =
     [it \<leftarrow> map (\<lambda>i. \<lparr>m_pt = SegProj e (fp_points p) i (Center rect), m_ind = i, it_valid = True\<rparr>)
                [m_ind (m_current p) ..< length (fp_points p) - 1].
      IsPointInside rect (m_pt it)]"

definition UpdateProjectionByPrediction ::
  "env \<Rightarrow> FollowedPolyline \<Rightarrow> RectD \<Rightarrow> real \<Rightarrow> Iter \<times> FollowedPolyline" where
  "UpdateProjectionByPrediction e p rect predictDistance =
     (let score = (\<lambda>it. if 0 \<le> predictDistance
                         then \<bar>GetDistanceM e p (m_current p) it - predictDistance\<bar>
                         else DistanceOnEarth e (Center rect) (m_pt it)) in
      case closest score (candidates e p rect) of
        None \<Rightarrow> ((m_current p)\<lparr>it_valid := False\<rparr>, p)
      | Some res \<Rightarrow> (res, p\<lparr>m_current := res\<rparr>))"

text \<open>
  \<^verbatim>\<open>Route::MoveIterator\<close>: the returned flag and the route, whose two trackers are
  \<^verbatim>\<open>mutable\<close>.
\<close>

definition MoveIterator :: "env \<Rightarrow> Route \<Rightarrow> GpsInfo \<Rightarrow> bool \<times> Route" where
  "MoveIterator e r info =
     (let predictDistance =
            (if m_currentTime r > 0 \<and> HasSpeed e info
             then (let deltaT = m_timestamp info - m_currentTime r in
                   if deltaT > 0 \<and> deltaT < kLocationTimeThreshold
                   then m_speed info * deltaT else - 1)
             else - 1);
          rect = MetresToXY e (m_longitude info) (m_latitude info)
                   (max (m_matchingThresholdM (m_routingSettings r)) (m_horizontalAccuracy info));
          res = UpdateProjectionByPrediction e (m_poly r) rect predictDistance;
          simplified = (if IsValid (m_simplifiedPoly r)
                        then snd (UpdateProjectionByPrediction e (m_simplifiedPoly r) rect predictDistance)
                        else m_simplifiedPoly r)
      in (it_valid (fst res), r\<lparr>m_poly := snd res, m_simplifiedPoly := simplified\<rparr>))"

text \<open>The routes after each of a sequence of fixes.\<close>

fun MoveIterator_run :: "env \<Rightarrow> Route \<Rightarrow> GpsInfo list \<Rightarrow> Route list" where
  "MoveIterator_run e r [] = []"
| "MoveIterator_run e r (info # infos) =
     snd (MoveIterator e r info) # MoveIterator_run e (snd (MoveIterator e r info)) infos"

definition vertexIndex :: "Route \<Rightarrow> nat" where
  "vertexIndex r = m_ind (m_current (m_poly r))"

definition pointCount :: "Route \<Rightarrow> nat" where
  "pointCount r = length (fp_points (m_poly r))"

subsection \<open>Distances of the turns\<close>

text \<open>\<^verbatim>\<open>polyline.GetSize() - 1\<close> in \<^verbatim>\<open>size_t\<close>: it wraps around for an empty polyline.\<close>

definition size_minus_1 :: "nat \<Rightarrow> nat" where
  "size_minus_1 n = (if n = 0 then 2 ^ 64 - 1 else n - 1)"

text \<open>
  The loop of \<^verbatim>\<open>GetTurnsDistances\<close>: \<open>former\<close> is the entry before \<^verbatim>\<open>currentTurn\<close> in
  \<open>m_turns\<close> (none at \<^verbatim>\<open>begin()\<close>), \<open>mercatorDistance\<close> the running sum.
\<close>

fun GetTurnsDistances_loop ::
  "env \<Rightarrow> PointD list \<Rightarrow> TurnItem option \<Rightarrow> real \<Rightarrow> TurnItem list \<Rightarrow> real list" where
  "GetTurnsDistances_loop e pts former mercatorDistance [] = []"
| "GetTurnsDistances_loop e pts former mercatorDistance (currentTurn # rest) =
     (if m_index currentTurn = 0 \<or> m_index currentTurn = size_minus_1 (length pts)
      then GetTurnsDistances_loop e pts (Some currentTurn) mercatorDistance rest
      else
        (mercatorDistance
           + CalculateMercatorDistanceAlongPath e
               (case former of None \<Rightarrow> 0 | Some t \<Rightarrow> m_index t) (m_index currentTurn) pts)
        # GetTurnsDistances_loop e pts (Some currentTurn)
            (mercatorDistance
               + CalculateMercatorDistanceAlongPath e
                   (case former of None \<Rightarrow> 0 | Some t \<Rightarrow> m_index t) (m_index currentTurn) pts)
            rest)"

definition GetTurnsDistances :: "env \<Rightarrow> Route \<Rightarrow> real list" where
  "GetTurnsDistances e r = GetTurnsDistances_loop e (fp_points (m_poly r)) None 0 (m_turns r)"

subsection \<open>Wire document\<close>

text \<open>
  The document of \<^verbatim>\<open>rapidjson\<close>. \<^verbatim>\<open>GetMeRouteAsJson\<close> is modelled up to the document it
  hands to the writer and \<^verbatim>\<open>FromJson\<close> from the document the parser returns: the
  text in between is the library's.
\<close>

datatype json =
    JNull
  | JBool bool
  | JInt int
  | JDouble real
  | JString string
  | JArray "json list"
  | JObject "(string \<times> json) list"

text \<open>The loop that writes \<open>instructions\<close>; \<^verbatim>\<open>m_times[i]\<close> is a read of the time table.\<close>

fun instructions_loop :: "Route \<Rightarrow> nat \<Rightarrow> nat \<Rightarrow> TurnItem list \<Rightarrow> fault + json list" where
  "instructions_loop r i previousIndex [] = Inr []"
| "instructions_loop r i previousIndex (routeTurn # rest) =
     (if i < length (m_times r)
      then fbind (instructions_loop r (i + 1) (m_index routeTurn) rest) (\<lambda>more.
             Inr (JObject
                    [(''streetSource'', JString (m_sourceName routeTurn)),
                     (''streetTarget'', JString (m_targetName routeTurn)),
                     (''exitNumber'', JInt (int (m_exitNum routeTurn))),
                     (''exited'', JBool (m_exitNum routeTurn \<noteq> 0)),
                     (''turnDirection'', JInt (int (m_turn routeTurn))),
                     (''pedestrianDirection'', JInt (int (m_pedestrianTurn routeTurn))),
                     (''startInterval'', JInt (int previousIndex)),
                     (''endInterval'', JInt (int (m_index routeTurn))),
                     (''time'', JDouble (snd (m_times r ! i))),
                     (''keepAnyways'', JBool (m_keepAnyway routeTurn))]
                  # more))
      else Inl OutOfRange)"

definition GetMeRouteAsJson :: "env \<Rightarrow> Route \<Rightarrow> fault + json" where
  "GetMeRouteAsJson e r =
     (let pts = fp_points (m_poly r); polySz = length pts in
      fbind (instructions_loop r 0 0 (m_turns r)) (\<lambda>instructions.
      fbind (GetTotalTimeSec r) (\<lambda>duration.
        Inr (JObject
          [(''points'',
              JArray (map (\<lambda>routePoint.
                        JObject [(''latitude'', JDouble (YToLat e (pt_y routePoint))),
                                 (''longitude'', JDouble (XToLon e (pt_x routePoint)))]) pts)),
           (''turns'', JArray (map JDouble (GetTurnsDistances e r))),
           (''times'',
              JArray (map (\<lambda>routeTime.
                        JObject [(''time'', JDouble (snd routeTime)),
                                 (''index'', JInt (int (fst routeTime)))]) (m_times r))),
           (''streets'',
              JArray (map (\<lambda>routeStreet.
                        JObject [(''name'', JString (snd routeStreet)),
                                 (''index'', JInt (int (fst routeStreet)))]) (m_streets r))),
           (''instructions'', JArray instructions),
           (''absentCountries'', JArray (map JString (m_absentCountries r))),
           (''distanceMercator'',
              JDouble (if polySz > 0
                       then CalculateMercatorDistanceAlongPath e 0 (polySz - 1) pts else 0)),
           (''distance'', JDouble (GetTotalDistanceM e (m_poly r))),
           (''duration'', JInt (int duration)),
           (''name'', JString (m_router r))]))))"

text \<open>
  Modelled from the spec: the accessors of \<^verbatim>\<open>rapidjson\<close>, a third-party library outside
  the sources (``decode assumes well-formed structure (required fields present, arrays of
  the expected shape); violation is a fatal parse fault''). A member that is absent, or
  a value of another type than the one asked for, is a fault.
\<close>

definition member :: "json \<Rightarrow> string \<Rightarrow> fault + json" where
  "member v name =
     (case v of
        JObject ms \<Rightarrow> (case map_of ms name of Some w \<Rightarrow> Inr w | None \<Rightarrow> Inl (JsonFault name))
      | _ \<Rightarrow> Inl (JsonFault name))"

definition GetDouble :: "json \<Rightarrow> fault + real" where
  "GetDouble v =
     (case v of JDouble d \<Rightarrow> Inr d | JInt n \<Rightarrow> Inr (real_of_int n) | _ \<Rightarrow> Inl (JsonFault ''GetDouble''))"

definition GetInt :: "json \<Rightarrow> fault + int" where
  "GetInt v =
     (case v of
        JInt n \<Rightarrow> if - (2 ^ 31) \<le> n \<and> n < 2 ^ 31 then Inr n else Inl (JsonFault ''GetInt'')
      | _ \<Rightarrow> Inl (JsonFault ''GetInt''))"

definition GetString :: "json \<Rightarrow> fault + string" where
  "GetString v = (case v of JString s \<Rightarrow> Inr s | _ \<Rightarrow> Inl (JsonFault ''GetString''))"

definition GetBool :: "json \<Rightarrow> fault + bool" where
  "GetBool v = (case v of JBool b \<Rightarrow> Inr b | _ \<Rightarrow> Inl (JsonFault ''GetBool''))"

definition GetArray :: "json \<Rightarrow> fault + json list" where
  "GetArray v = (case v of JArray xs \<Rightarrow> Inr xs | _ \<Rightarrow> Inl (JsonFault ''IsArray''))"

text \<open>An \<^verbatim>\<open>int\<close> stored into a \<^verbatim>\<open>uint32_t\<close>.\<close>

definition uint32_of_int :: "int \<Rightarrow> nat" where
  "uint32_of_int n = nat (n mod 2 ^ 32)"

text \<open>A loop over the items of an array that pushes one decoded value per item.\<close>

fun for_each :: "(json \<Rightarrow> fault + 'a) \<Rightarrow> json list \<Rightarrow> fault + 'a list" where
  "for_each f [] = Inr []"
| "for_each f (item # items) =
     fbind (f item) (\<lambda>v. fbind (for_each f items) (\<lambda>vs. Inr (v # vs)))"

text \<open>The bodies of the four loops of \<^verbatim>\<open>FromJson\<close>.\<close>

definition decode_point :: "env \<Rightarrow> json \<Rightarrow> fault + PointD" where
  "decode_point e item =
     fbind (member item ''latitude'') (\<lambda>a. fbind (GetDouble a) (\<lambda>latitude.
     fbind (member item ''longitude'') (\<lambda>b. fbind (GetDouble b) (\<lambda>longitude.
       Inr (FromLatLon e latitude longitude)))))"

definition decode_time :: "json \<Rightarrow> fault + TTimeItem" where
  "decode_time item =
     fbind (member item ''latitude'') (\<lambda>a. fbind (GetDouble a) (\<lambda>time.
     fbind (member item ''longitude'') (\<lambda>b. fbind (GetInt b) (\<lambda>index.
     fbind (uint32_of_double (real_of_int index)) (\<lambda>first.
       Inr (first, time))))))"

definition decode_street :: "json \<Rightarrow> fault + TStreetItem" where
  "decode_street item =
     fbind (member item ''name'') (\<lambda>a. fbind (GetString a) (\<lambda>street.
     fbind (member item ''index'') (\<lambda>b. fbind (GetInt b) (\<lambda>index.
     fbind (uint32_of_double (real_of_int index)) (\<lambda>first.
       Inr (first, street))))))"

definition decode_turn :: "json \<Rightarrow> fault + TurnItem" where
  "decode_turn item =
     fbind (member item ''endInterval'') (\<lambda>a. fbind (GetInt a) (\<lambda>index.
     fbind (member item ''exitNumber'') (\<lambda>b. fbind (GetInt b) (\<lambda>exitNum.
     fbind (member item ''keepAnyways'') (\<lambda>c. fbind (GetBool c) (\<lambda>keepAnyways.
     fbind (member item ''turnDirection'') (\<lambda>d. fbind (GetInt d) (\<lambda>turnDirection.
     fbind (member item ''pedestrianDirection'') (\<lambda>f. fbind (GetInt f) (\<lambda>pedestrianTurnDirection.
     fbind (member item ''streetSource'') (\<lambda>g. fbind (GetString g) (\<lambda>streetSource.
     fbind (member item ''streetTarget'') (\<lambda>h. fbind (GetString h) (\<lambda>streetTarget.
       Inr \<lparr>m_index = uint32_of_int index, m_turn = uint32_of_int turnDirection,
            m_exitNum = uint32_of_int exitNum, m_keepAnyway = keepAnyways,
            m_pedestrianTurn = uint32_of_int pedestrianTurnDirection,
            m_sourceName = streetSource, m_targetName = streetTarget\<rparr>))))))))))))))"

text \<open>
  Modelled from the spec: the constructor of \<^verbatim>\<open>FollowedPolyline\<close> and the setters of the
  header route.hpp, which are not among the sources (a tracker holds the point sequence
  and a cursor, valid once the sequence is not empty; a setter replaces its table, and
  \<^verbatim>\<open>Update\<close> is called after a change of the geometry).
\<close>

definition MakeFollowedPolyline :: "PointD list \<Rightarrow> FollowedPolyline" where
  "MakeFollowedPolyline pts =
     \<lparr>fp_points = pts,
      m_current = \<lparr>m_pt = (case pts of [] \<Rightarrow> PointD 0 0 | p # _ \<Rightarrow> p), m_ind = 0,
                   it_valid = (pts \<noteq> [])\<rparr>\<rparr>"

text \<open>\<^verbatim>\<open>Route::Update\<close>.\<close>

definition Update :: "env \<Rightarrow> Route \<Rightarrow> Route" where
  "Update e r =
     (if \<not> IsValid (m_poly r) then r
      else
        (if m_keepPedestrianInfo (m_routingSettings r)
         then r\<lparr>m_simplifiedPoly := MakeFollowedPolyline (Simplify e (fp_points (m_poly r)))\<rparr>
         else r\<lparr>m_simplifiedPoly := MakeFollowedPolyline []\<rparr>)
        \<lparr>m_currentTime := 0\<rparr>)"

definition SetGeometry :: "env \<Rightarrow> PointD list \<Rightarrow> Route \<Rightarrow> Route" where
  "SetGeometry e points r = Update e (r\<lparr>m_poly := MakeFollowedPolyline points\<rparr>)"

text \<open>\<^verbatim>\<open>Route::FromJson\<close>, on the route it is called on.\<close>

definition FromJson :: "env \<Rightarrow> Route \<Rightarrow> json \<Rightarrow> fault + Route" where
  "FromJson e r document =
     fbind (member document ''points'') (\<lambda>jsonPoints.
     fbind (GetArray jsonPoints) (\<lambda>pointItems.
     fbind (for_each (decode_point e) pointItems) (\<lambda>points.
     fbind (member document ''times'') (\<lambda>jsonRouteTimes.
     fbind (GetArray jsonRouteTimes) (\<lambda>timeItems.
     fbind (for_each decode_time timeItems) (\<lambda>routeTimes.
     fbind (member document ''streets'') (\<lambda>jsonStreets.
     fbind (GetArray jsonStreets) (\<lambda>streetItems.
     fbind (for_each decode_street streetItems) (\<lambda>streets.
     fbind (member document ''instructions'') (\<lambda>jsonTurns.
     fbind (GetArray jsonTurns) (\<lambda>turnItems.
     fbind (for_each decode_turn turnItems) (\<lambda>routeTurns.
       Inr ((SetGeometry e points r)
              \<lparr>m_turns := routeTurns, m_times := routeTimes, m_streets := streets\<rparr>)))))))))))))"

subsection \<open>A concrete environment and concrete routes\<close>

text \<open>
  An environment for routes that run east along the x axis: the projection is the
  identity on coordinates, a Mercator unit is 111000 metres, two numbers are almost
  equal when they are equal. \<open>dbg\<close> chooses the build.
\<close>

definition sample_env :: "bool \<Rightarrow> env" where
  "sample_env dbg =
     \<lparr>debug = dbg,
      YToLat = (\<lambda>v. v),
      XToLon = (\<lambda>v. v),
      FromLatLon = (\<lambda>lat lon. PointD lon lat),
      DistanceOnEarth = (\<lambda>a b. 111000 * (\<bar>pt_x a - pt_x b\<bar> + \<bar>pt_y a - pt_y b\<bar>)),
      MetresToXY = (\<lambda>lon lat m. RectD (lon - m / 111000) (lat - m / 111000)
                                     (lon + m / 111000) (lat + m / 111000)),
      AlmostEqualULPs = (\<lambda>a b. a = b),
      AlmostEqualULPsPt = (\<lambda>a b. a = b),
      AngleTo = (\<lambda>a b. 0),
      RadToDeg = (\<lambda>a. a),
      AngleToBearing = (\<lambda>a. a),
      HasSpeed = (\<lambda>info. 0 \<le> m_speed info),
      CalculateMercatorDistanceAlongPath = (\<lambda>a b pts. \<bar>pt_x (pts ! b) - pt_x (pts ! a)\<bar>),
      GetDistanceM = (\<lambda>p a b. 111000 * \<bar>pt_x (m_pt b) - pt_x (m_pt a)\<bar>),
      GetIterToIndex = (\<lambda>p i. \<lparr>m_pt = fp_points p ! i, m_ind = i, it_valid = True\<rparr>),
      GetTotalDistanceM = (\<lambda>p. 111000 * \<bar>pt_x (last (fp_points p)) - pt_x (hd (fp_points p))\<bar>),
      GetMercatorDistanceFromBegin = (\<lambda>p. \<bar>pt_x (m_pt (m_current p)) - pt_x (hd (fp_points p))\<bar>),
      SegProj = (\<lambda>pts i c. PointD (max (pt_x (pts ! i)) (min (pt_x (pts ! (i + 1))) (pt_x c))) 0),
      Simplify = (\<lambda>pts. pts),
      DefaultTurnItem =
        \<lparr>m_index = 2 ^ 32 - 1, m_turn = 0, m_exitNum = 0, m_keepAnyway = False,
         m_pedestrianTurn = 0, m_sourceName = [], m_targetName = []\<rparr>\<rparr>"

definition sample_settings :: RoutingSettings where
  "sample_settings =
     \<lparr>m_matchRoute = True, m_matchingThresholdM = 50, m_keepPedestrianInfo = False\<rparr>"

definition turn_at :: "nat \<Rightarrow> TurnItem" where
  "turn_at i =
     \<lparr>m_index = i, m_turn = 2, m_exitNum = 0, m_keepAnyway = False, m_pedestrianTurn = 0,
      m_sourceName = [], m_targetName = []\<rparr>"

text \<open>
  A route over the given points with the cursor on vertex \<open>ind\<close>, and empty tables.
\<close>

definition sample_route :: "PointD list \<Rightarrow> nat \<Rightarrow> Route" where
  "sample_route pts ind =
     \<lparr>m_router = ''vehicle'',
      m_routingSettings = sample_settings,
      m_name = [],
      m_poly = \<lparr>fp_points = pts,
                m_current = \<lparr>m_pt = pts ! ind, m_ind = ind, it_valid = True\<rparr>\<rparr>,
      m_simplifiedPoly = MakeFollowedPolyline [],
      m_currentTime = 0,
      m_turns = [],
      m_times = [],
      m_streets = [],
      m_absentCountries = []\<rparr>"

text \<open>Three points one Mercator unit apart.\<close>

definition three_points :: "PointD list" where
  "three_points = [PointD 0 0, PointD 1 0, PointD 2 0]"

text \<open>Fifty points along the axis, turns at the vertices 5, 12 and 40, the cursor on \<open>ind\<close>.\<close>

definition turns_route :: "nat \<Rightarrow> Route" where
  "turns_route ind =
     (sample_route (map (\<lambda>i. PointD (real i) 0) [0..<50]) ind)
       \<lparr>m_turns := [turn_at 5, turn_at 12, turn_at 40]\<rparr>"

text \<open>A fix at the given latitude and longitude, and a matching result not yet set.\<close>

definition fix_at :: "real \<Rightarrow> real \<Rightarrow> GpsInfo" where
  "fix_at lat lon =
     \<lparr>m_timestamp = 100, m_latitude = lat, m_longitude = lon, m_horizontalAccuracy = 10,
      m_speed = 5, m_bearing = 90\<rparr>"

definition no_match :: RouteMatchingInfo where
  "no_match = \<lparr>m_matchedPosition = PointD 0 0, m_indexInRoute = 0, m_distanceFromBegin = 0\<rparr>"


text \<open>Encoding a route and decoding the document into the route \<open>target\<close>.\<close>

definition round_trip :: "env \<Rightarrow> Route \<Rightarrow> Route \<Rightarrow> fault + Route" where
  "round_trip e target r = fbind (GetMeRouteAsJson e r) (FromJson e target)"

text \<open>
  A route without geometry and tables; a route of three points that lacks the maps of
  one country; and the route of the round-trip example: three points, one turn, two
  time checkpoints, one street and one absent country.
\<close>

definition empty_route :: Route where
  "empty_route =
     \<lparr>m_router = ''vehicle'', m_routingSettings = sample_settings, m_name = [],
      m_poly = MakeFollowedPolyline [], m_simplifiedPoly = MakeFollowedPolyline [],
      m_currentTime = 0, m_turns = [], m_times = [], m_streets = [],
      m_absentCountries = []\<rparr>"

definition absent_route :: Route where
  "absent_route = (sample_route three_points 0)\<lparr>m_absentCountries := [''Atlantis'']\<rparr>"

definition example_route :: Route where
  "example_route =
     (sample_route three_points 0)
       \<lparr>m_turns := [turn_at 1], m_times := [(1, 10), (2, 30)], m_streets := [(0, ''Main St'')],
        m_absentCountries := [''Atlantis'']\<rparr>"

text \<open>
  The turns that \<^verbatim>\<open>GetTurnsDistances\<close> does not skip, and the sums the claim describes:
  each value is the one before it (\<open>acc\<close>) plus the path distance from the turn before
  (\<open>start\<close>: the begin of the route for the first one) to this turn.
\<close>

definition displayable :: "Route \<Rightarrow> TurnItem list" where
  "displayable r =
     [t \<leftarrow> m_turns r. \<not> (m_index t = 0 \<or> m_index t = size_minus_1 (pointCount r))]"

fun cumulative_distances :: "env \<Rightarrow> PointD list \<Rightarrow> nat \<Rightarrow> real \<Rightarrow> TurnItem list \<Rightarrow> real list" where
  "cumulative_distances e pts start acc [] = []"
| "cumulative_distances e pts start acc (t # ts) =
     (acc + CalculateMercatorDistanceAlongPath e start (m_index t) pts)
     # cumulative_distances e pts (m_index t)
         (acc + CalculateMercatorDistanceAlongPath e start (m_index t) pts) ts"

text \<open>Three points, a turn on the middle one.\<close>

definition one_turn_route :: Route where
  "one_turn_route = (sample_route three_points 0)\<lparr>m_turns := [turn_at 1]\<rparr>"

text \<open>Five points one Mercator unit apart, with turns on the vertices 0, 1, 3 and 4.\<close>

definition four_turn_route :: Route where
  "four_turn_route =
     (sample_route [PointD 0 0, PointD 1 0, PointD 2 0, PointD 3 0, PointD 4 0] 0)
       \<lparr>m_turns := [turn_at 0, turn_at 1, turn_at 3, turn_at 4]\<rparr>"

text \<open>Three points and a street table of the single entry \<open>(0, Main St)\<close>.\<close>

definition one_street_route :: Route where
  "one_street_route = (sample_route three_points 0)\<lparr>m_streets := [(0, ''Main St'')]\<rparr>"

text \<open>
  The time table written under the member names that \<^verbatim>\<open>FromJson\<close> reads, and a document
  with its \<open>times\<close> array replaced (a lookup finds the first member of a name).
\<close>

definition times_as_read :: "Route \<Rightarrow> json" where
  "times_as_read r =
     JArray (map (\<lambda>routeTime.
               JObject [(''latitude'', JDouble (snd routeTime)),
                        (''longitude'', JInt (int (fst routeTime)))]) (m_times r))"

definition with_times :: "json \<Rightarrow> json \<Rightarrow> json" where
  "with_times document ts =
     (case document of JObject ms \<Rightarrow> JObject ((''times'', ts) # ms) | _ \<Rightarrow> document)"

section \<open>Properties\<close>

subsection \<open>The binary search\<close>

text \<open>
  On a range partitioned by the comparison, and so on a list in ascending order of the
  key, the search returns the partition point: the position of the first element the
  searched value is less than.
\<close>

lemma upper_bound_loop_partitioned:
  assumes "first \<le> k" and "k \<le> first + count" and "first + count \<le> length xs"
    and "\<forall>i<k. \<not> cmp v (xs ! i)"
    and "\<forall>i. k \<le> i \<and> i < length xs \<longrightarrow> cmp v (xs ! i)"
  shows "upper_bound_loop cmp v xs first count = k"
  using assms
proof (induction cmp v xs first count rule: upper_bound_loop.induct)
  case (1 cmp v xs first count)
  show ?case
  proof (cases "count = 0")
    case True
    with "1.prems" show ?thesis
      by (simp add: upper_bound_loop.simps)
  next
    case False
    let ?mid = "first + count div 2"
    from False have mid_lt: "?mid < first + count" by simp
    show ?thesis
    proof (cases "cmp v (xs ! ?mid)")
      case True
      have "k \<le> ?mid"
      proof (rule ccontr)
        assume "\<not> k \<le> ?mid"
        then have "?mid < k" by simp
        with "1.prems"(4) True show False by blast
      qed
      with "1.IH"(2)[OF False] True "1.prems" have
        "upper_bound_loop cmp v xs first (count div 2) = k"
        by simp
      with False True show ?thesis
        by (subst upper_bound_loop.simps) simp
    next
      case nc: False
      have "?mid < k"
      proof (rule ccontr)
        assume "\<not> ?mid < k"
        then have "k \<le> ?mid" by simp
        moreover from mid_lt "1.prems"(3) have "?mid < length xs" by simp
        ultimately show False using "1.prems"(5) nc by blast
      qed
      with "1.IH"(1)[OF False] nc "1.prems" mid_lt have
        "upper_bound_loop cmp v xs (?mid + 1) (count - (count div 2 + 1)) = k"
        by simp
      with False nc show ?thesis
        by (subst upper_bound_loop.simps) simp
    qed
  qed
qed

lemma upper_bound_sorted:
  fixes f :: "'a \<Rightarrow> 'b::linorder"
  assumes "sorted (map f xs)"
  shows "upper_bound (\<lambda>v e. v < f e) v xs \<le> length xs
       \<and> (\<forall>i < upper_bound (\<lambda>v e. v < f e) v xs. f (xs ! i) \<le> v)
       \<and> (\<forall>i. upper_bound (\<lambda>v e. v < f e) v xs \<le> i \<and> i < length xs \<longrightarrow> v < f (xs ! i))"
proof -
  define k where "k = length (takeWhile (\<lambda>e. f e \<le> v) xs)"
  have k_le: "k \<le> length xs"
    by (simp add: k_def length_takeWhile_le)
  have before: "f (xs ! i) \<le> v" if "i < k" for i
  proof -
    from that have "takeWhile (\<lambda>e. f e \<le> v) xs ! i = xs ! i"
      unfolding k_def by (rule takeWhile_nth)
    moreover from that have "takeWhile (\<lambda>e. f e \<le> v) xs ! i \<in> set (takeWhile (\<lambda>e. f e \<le> v) xs)"
      unfolding k_def by (rule nth_mem)
    ultimately show ?thesis
      by (auto dest: set_takeWhileD)
  qed
  have after: "v < f (xs ! i)" if "k \<le> i" and "i < length xs" for i
  proof -
    from that have "k < length xs" by simp
    then have "\<not> f (xs ! k) \<le> v"
      unfolding k_def by (rule nth_length_takeWhile)
    moreover from assms that have "f (xs ! k) \<le> f (xs ! i)"
      using sorted_nth_mono[of "map f xs" k i] by simp
    ultimately show ?thesis by simp
  qed
  have "upper_bound_loop (\<lambda>v e. v < f e) v xs 0 (length xs) = k"
    by (rule upper_bound_loop_partitioned) (use k_le before after in \<open>auto simp: not_less\<close>)
  then have "upper_bound (\<lambda>v e. v < f e) v xs = k"
    by (simp add: upper_bound_def)
  with k_le before after show ?thesis by simp
qed


lemma upper_bound_Nil: "upper_bound cmp v [] = 0"
  by (simp add: upper_bound_def upper_bound_loop.simps)

subsection \<open>The street scan on a table of one entry\<close>

text \<open>
  C10. On a street table of exactly one entry, whatever the cursor, the scan of
  \<^verbatim>\<open>GetCurrentStreetNameIterAfter\<close> has moved \<open>curIter\<close> to the end of the table when the
  loop's condition first reads \<^verbatim>\<open>curIter->first\<close>: the guard on the empty table does not
  make the scan total, and the call ends in a read outside the vector, not in a
  position of the table.
\<close>

theorem single_entry_street_table_reads_past_end:
  "length (m_streets r) = 1 \<Longrightarrow> GetCurrentStreetNameIterAfter r iter = Inl OutOfRange"
  by (cases "m_streets r") (simp_all add: GetCurrentStreetNameIterAfter_def street_scan.simps)

theorem single_entry_street_table_reads_past_end_witness:
  "length (m_streets ((sample_route three_points 0)\<lparr>m_streets := [(0, ''Main St'')]\<rparr>)) = 1
   \<and> GetCurrentStreetNameIterAfter ((sample_route three_points 0)\<lparr>m_streets := [(0, ''Main St'')]\<rparr>)
         (m_current (m_poly (sample_route three_points 0))) = Inl OutOfRange"
  using single_entry_street_table_reads_past_end
    [of "(sample_route three_points 0)\<lparr>m_streets := [(0, ''Main St'')]\<rparr>"
        "m_current (m_poly (sample_route three_points 0))"]
  by simp

subsection \<open>The current and the next turn\<close>

lemma uint32_of_size_id: "n < 2 ^ 32 \<Longrightarrow> uint32_of_size n = n"
  by (simp add: uint32_of_size_def)

text \<open>
  C3 (as amended). For a turn table in ascending order of vertex index that is not empty,
  \<^verbatim>\<open>GetCurrentTurn\<close> returns the position \<open>k\<close> of the first turn whose vertex index is
  strictly greater than the cursor's: every turn before \<open>k\<close> is at or before the cursor's
  vertex, every turn from \<open>k\<close> on is beyond it. \<^verbatim>\<open>GetNextTurn\<close> yields the turn after that
  one; it reports not-found when that one is the last turn, and, when the cursor is
  beyond every turn, not-found in a build without assertions and a failed assertion in
  a build with them. For the turns at 5, 12 and 40 (the witness): a cursor at vertex 8
  gives the turn at 12, then the one at 40; a cursor at 41 gives not-found.
\<close>

theorem GetCurrentTurn_is_first_turn_beyond_cursor:
  assumes sorted: "sorted (map m_index (m_turns r))"
    and nonempty: "m_turns r \<noteq> []"
    and small: "vertexIndex r < 2 ^ 32"
  shows "\<exists>k. GetCurrentTurn e r = Inr k \<and> k \<le> length (m_turns r)
           \<and> (\<forall>i<k. m_index (m_turns r ! i) \<le> vertexIndex r)
           \<and> (\<forall>i. k \<le> i \<and> i < length (m_turns r) \<longrightarrow> vertexIndex r < m_index (m_turns r ! i))
           \<and> (k + 1 < length (m_turns r) \<longrightarrow>
                 GetNextTurn e r =
                   Inr (True,
                        GetDistanceM e (m_poly r) (m_current (m_poly r))
                          (GetIterToIndex e (m_poly r) (m_index (m_turns r ! (k + 1)))),
                        m_turns r ! (k + 1)))
           \<and> (k + 1 = length (m_turns r) \<longrightarrow> GetNextTurn e r = Inr (False, 0, DefaultTurnItem e))
           \<and> (k = length (m_turns r) \<longrightarrow>
                 GetNextTurn e r = (if debug e then Inl AssertFailed
                                    else Inr (False, 0, DefaultTurnItem e)))"
proof -
  let ?k = "upper_bound (\<lambda>lhs rhs. lhs < m_index rhs) (vertexIndex r) (m_turns r)"
  from small have cur: "GetCurrentTurn e r = Inr ?k"
    using nonempty by (simp add: GetCurrentTurn_def ASSERT_def vertexIndex_def uint32_of_size_id)
  note ub = upper_bound_sorted[OF sorted, of "vertexIndex r"]
  have next_found: "GetNextTurn e r =
      Inr (True,
           GetDistanceM e (m_poly r) (m_current (m_poly r))
             (GetIterToIndex e (m_poly r) (m_index (m_turns r ! (?k + 1)))),
           m_turns r ! (?k + 1))" if "?k + 1 < length (m_turns r)"
    using that cur by (simp add: GetNextTurn_def fbind_def ASSERT_def)
  have next_last: "GetNextTurn e r = Inr (False, 0, DefaultTurnItem e)"
    if "?k + 1 = length (m_turns r)"
  proof -
    from that have "?k \<noteq> length (m_turns r)" by simp
    with that cur show ?thesis
      by (simp add: GetNextTurn_def fbind_def ASSERT_def)
  qed
  have next_end: "GetNextTurn e r = (if debug e then Inl AssertFailed
                                     else Inr (False, 0, DefaultTurnItem e))"
    if "?k = length (m_turns r)"
    using that cur by (simp add: GetNextTurn_def fbind_def ASSERT_def)
  from cur ub next_found next_last next_end show ?thesis
    by blast
qed

lemma turns_route_simps:
  "m_turns (turns_route ind) = [turn_at 5, turn_at 12, turn_at 40]"
  "vertexIndex (turns_route ind) = ind"
  by (simp_all add: turns_route_def sample_route_def vertexIndex_def)

lemma turns_route_eval:
  "GetCurrentTurn (sample_env dbg) (turns_route 8) = Inr 1"
  "GetCurrentTurn (sample_env dbg) (turns_route 12) = Inr 2"
  "GetCurrentTurn (sample_env dbg) (turns_route 41) = Inr 3"
  by (simp_all add: GetCurrentTurn_def ASSERT_def turns_route_def sample_route_def
      upper_bound_def upper_bound_loop.simps uint32_of_size_def turn_at_def)

theorem GetCurrentTurn_is_first_turn_beyond_cursor_witness:
  "GetCurrentTurn (sample_env False) (turns_route 8) = Inr 1
   \<and> m_index (m_turns (turns_route 8) ! 1) = 12
   \<and> (\<exists>d. GetNextTurn (sample_env False) (turns_route 8) = Inr (True, d, turn_at 40))
   \<and> GetNextTurn (sample_env False) (turns_route 41)
       = Inr (False, 0, DefaultTurnItem (sample_env False))"
proof -
  have s: "sorted (map m_index (m_turns (turns_route ind)))" for ind
    by (simp add: turns_route_simps turn_at_def)
  have n: "m_turns (turns_route ind) \<noteq> []" for ind
    by (simp add: turns_route_simps)
  have b8: "vertexIndex (turns_route 8) < 2 ^ 32" and b41: "vertexIndex (turns_route 41) < 2 ^ 32"
    by (simp_all add: turns_route_simps)
  from GetCurrentTurn_is_first_turn_beyond_cursor[OF s n b8, of "sample_env False"]
  have "1 + 1 < length (m_turns (turns_route 8)) \<longrightarrow>
        GetNextTurn (sample_env False) (turns_route 8) =
          Inr (True,
               GetDistanceM (sample_env False) (m_poly (turns_route 8))
                 (m_current (m_poly (turns_route 8)))
                 (GetIterToIndex (sample_env False) (m_poly (turns_route 8))
                    (m_index (m_turns (turns_route 8) ! (1 + 1)))),
               m_turns (turns_route 8) ! (1 + 1))"
    by (elim exE conjE) (simp add: turns_route_eval)
  then have n8: "\<exists>d. GetNextTurn (sample_env False) (turns_route 8) = Inr (True, d, turn_at 40)"
    by (simp add: turns_route_simps)
  from GetCurrentTurn_is_first_turn_beyond_cursor[OF s n b41, of "sample_env False"]
  have "3 = length (m_turns (turns_route 41)) \<longrightarrow>
        GetNextTurn (sample_env False) (turns_route 41)
          = (if debug (sample_env False) then Inl AssertFailed
             else Inr (False, 0, DefaultTurnItem (sample_env False)))"
    by (elim exE conjE) (simp add: turns_route_eval)
  then have n41: "GetNextTurn (sample_env False) (turns_route 41)
       = Inr (False, 0, DefaultTurnItem (sample_env False))"
    by (simp add: turns_route_simps sample_env_def)
  from n8 n41 show ?thesis
    by (simp add: turns_route_eval turns_route_simps turn_at_def)
qed

text \<open>
  The claim as stated (the first turn whose vertex index is greater than or equal to the
  cursor's, not-found reported beyond the last turn) fails: with the cursor on vertex 12
  the search returns position 2, the turn at 40, not the turn at 12; and with assertions
  compiled in, \<^verbatim>\<open>GetNextTurn\<close> beyond the last turn stops at its assertion.
\<close>

theorem GetCurrentTurn_at_a_turn_vertex_counterexample:
  "map m_index (m_turns (turns_route 12)) = [5, 12, 40]
   \<and> vertexIndex (turns_route 12) = 12
   \<and> GetCurrentTurn (sample_env False) (turns_route 12) = Inr 2
   \<and> GetNextTurn (sample_env True) (turns_route 41) = Inl AssertFailed"
  by (simp add: GetNextTurn_def fbind_def ASSERT_def turns_route_simps turns_route_eval turn_at_def)
    (simp add: sample_env_def)

subsection \<open>Matching a fix to the route\<close>

lemma GetPolySegAngle_on_segment:
  "\<not> debug e \<or> ind + 1 < length (fp_points (m_poly r)) \<Longrightarrow> \<exists>a. GetPolySegAngle e r ind = Inr a"
  by (auto simp: GetPolySegAngle_def ASSERT_def Let_def)

lemma GetPolySegAngle_off_segment:
  "debug e \<Longrightarrow> length (fp_points (m_poly r)) \<le> ind + 1 \<Longrightarrow> GetPolySegAngle e r ind = Inl AssertFailed"
  by (simp add: GetPolySegAngle_def ASSERT_def Let_def)

text \<open>
  C1 (as amended). For every route with a valid (non-empty) polyline and every fix: when
  the distance from the fix to the cursor's projected point is below
  \<open>m_matchingThresholdM\<close>, \<^verbatim>\<open>MatchLocationToRoute\<close> snaps the fix (its latitude and
  longitude become those of the projected point, and the matching result is set to the
  projected point, its vertex index and the distance from the begin), except in a build
  with assertions, with route-aligned bearing and with the cursor on the last vertex,
  where it stops at the assertion of \<^verbatim>\<open>GetPolySegAngle\<close>; when the distance is at or above
  the threshold, the fix and the matching result come back as they went in.
\<close>

theorem MatchLocationToRoute_snaps_below_threshold_or_asserts:
  assumes valid: "IsValid (m_poly r)"
  shows "(DistanceOnEarth e (m_pt (m_current (m_poly r)))
            (FromLatLon e (m_latitude location) (m_longitude location))
          < m_matchingThresholdM (m_routingSettings r)
          \<and> \<not> (debug e \<and> m_matchRoute (m_routingSettings r) \<and> pointCount r \<le> vertexIndex r + 1) \<longrightarrow>
            (\<exists>location'.
               MatchLocationToRoute e r (location, info) =
                 Inr (location',
                      Set_info (m_pt (m_current (m_poly r))) (m_ind (m_current (m_poly r)))
                        (GetMercatorDistanceFromBegin e (m_poly r)) info)
               \<and> m_latitude location' = YToLat e (pt_y (m_pt (m_current (m_poly r))))
               \<and> m_longitude location' = XToLon e (pt_x (m_pt (m_current (m_poly r))))))
       \<and> (DistanceOnEarth e (m_pt (m_current (m_poly r)))
            (FromLatLon e (m_latitude location) (m_longitude location))
          < m_matchingThresholdM (m_routingSettings r)
          \<and> debug e \<and> m_matchRoute (m_routingSettings r) \<and> pointCount r \<le> vertexIndex r + 1 \<longrightarrow>
            MatchLocationToRoute e r (location, info) = Inl AssertFailed)
       \<and> (\<not> DistanceOnEarth e (m_pt (m_current (m_poly r)))
              (FromLatLon e (m_latitude location) (m_longitude location))
            < m_matchingThresholdM (m_routingSettings r) \<longrightarrow>
            MatchLocationToRoute e r (location, info) = Inr (location, info))"
proof (intro conjI impI)
  assume a: "DistanceOnEarth e (m_pt (m_current (m_poly r)))
                  (FromLatLon e (m_latitude location) (m_longitude location))
                < m_matchingThresholdM (m_routingSettings r)
             \<and> \<not> (debug e \<and> m_matchRoute (m_routingSettings r) \<and> pointCount r \<le> vertexIndex r + 1)"
  then have near: "DistanceOnEarth e (m_pt (m_current (m_poly r)))
                  (FromLatLon e (m_latitude location) (m_longitude location))
                < m_matchingThresholdM (m_routingSettings r)"
    by simp
  show "\<exists>location'.
          MatchLocationToRoute e r (location, info) =
            Inr (location',
                 Set_info (m_pt (m_current (m_poly r))) (m_ind (m_current (m_poly r)))
                   (GetMercatorDistanceFromBegin e (m_poly r)) info)
          \<and> m_latitude location' = YToLat e (pt_y (m_pt (m_current (m_poly r))))
          \<and> m_longitude location' = XToLon e (pt_x (m_pt (m_current (m_poly r))))"
  proof (cases "m_matchRoute (m_routingSettings r)")
    case True
    with a have "\<not> debug e \<or> m_ind (m_current (m_poly r)) + 1 < length (fp_points (m_poly r))"
      by (auto simp: vertexIndex_def pointCount_def)
    then obtain ang where "GetPolySegAngle e r (m_ind (m_current (m_poly r))) = Inr ang"
      using GetPolySegAngle_on_segment by blast
    with valid near True show ?thesis
      by (simp add: MatchLocationToRoute_def Let_def fbind_def)
  next
    case False
    with valid near show ?thesis
      by (simp add: MatchLocationToRoute_def Let_def fbind_def)
  qed
next
  assume b: "DistanceOnEarth e (m_pt (m_current (m_poly r)))
            (FromLatLon e (m_latitude location) (m_longitude location))
          < m_matchingThresholdM (m_routingSettings r)
          \<and> debug e \<and> m_matchRoute (m_routingSettings r) \<and> pointCount r \<le> vertexIndex r + 1"
  then have "GetPolySegAngle e r (m_ind (m_current (m_poly r))) = Inl AssertFailed"
    by (intro GetPolySegAngle_off_segment) (simp_all add: vertexIndex_def pointCount_def)
  with valid b show "MatchLocationToRoute e r (location, info) = Inl AssertFailed"
    by (simp add: MatchLocationToRoute_def Let_def fbind_def)
next
  assume "\<not> DistanceOnEarth e (m_pt (m_current (m_poly r)))
              (FromLatLon e (m_latitude location) (m_longitude location))
            < m_matchingThresholdM (m_routingSettings r)"
  with valid show "MatchLocationToRoute e r (location, info) = Inr (location, info)"
    by (simp add: MatchLocationToRoute_def Let_def)
qed

lemma sample_route_three_points_facts:
  "IsValid (m_poly (sample_route three_points 0))"
  "vertexIndex (sample_route three_points 0) + 1 < pointCount (sample_route three_points 0)"
  "m_current (m_poly (sample_route three_points 0)) = \<lparr>m_pt = PointD 0 0, m_ind = 0, it_valid = True\<rparr>"
  "m_matchingThresholdM (m_routingSettings (sample_route three_points 0)) = 50"
  by (simp_all add: IsValid_def sample_route_def three_points_def vertexIndex_def pointCount_def
      sample_settings_def)

lemma sample_route_last_vertex_facts:
  "IsValid (m_poly (sample_route three_points 2))"
  "pointCount (sample_route three_points 2) \<le> vertexIndex (sample_route three_points 2) + 1"
  "m_current (m_poly (sample_route three_points 2)) = \<lparr>m_pt = PointD 2 0, m_ind = 2, it_valid = True\<rparr>"
  "m_matchingThresholdM (m_routingSettings (sample_route three_points 2)) = 50"
  "m_matchRoute (m_routingSettings (sample_route three_points 2))"
  by (simp_all add: IsValid_def sample_route_def three_points_def vertexIndex_def pointCount_def
      sample_settings_def)

theorem MatchLocationToRoute_snaps_below_threshold_or_asserts_witness:
  "IsValid (m_poly (sample_route three_points 0))
   \<and> (\<exists>location'.
         MatchLocationToRoute (sample_env True) (sample_route three_points 0)
           (fix_at (1 / 10000) 0, no_match)
           = Inr (location', Set_info (PointD 0 0) 0 0 no_match)
         \<and> m_latitude location' = 0 \<and> m_longitude location' = 0)
   \<and> MatchLocationToRoute (sample_env True) (sample_route three_points 0)
         (fix_at (1 / 1000) 0, no_match) = Inr (fix_at (1 / 1000) 0, no_match)
   \<and> IsValid (m_poly (sample_route three_points 2))
   \<and> (\<exists>location'.
         MatchLocationToRoute (sample_env False) (sample_route three_points 2)
           (fix_at 0 2, no_match)
           = Inr (location', Set_info (PointD 2 0) 2 2 no_match)
         \<and> m_latitude location' = 0 \<and> m_longitude location' = 2)
   \<and> MatchLocationToRoute (sample_env True) (sample_route three_points 2)
         (fix_at 0 2, no_match) = Inl AssertFailed"
proof -
  note facts = sample_route_three_points_facts
  note last = sample_route_last_vertex_facts
  note T = MatchLocationToRoute_snaps_below_threshold_or_asserts[OF facts(1)]
  note L = MatchLocationToRoute_snaps_below_threshold_or_asserts[OF last(1)]
  have near: "DistanceOnEarth (sample_env True) (m_pt (m_current (m_poly (sample_route three_points 0))))
            (FromLatLon (sample_env True) (m_latitude (fix_at (1 / 10000) 0)) (m_longitude (fix_at (1 / 10000) 0)))
          < m_matchingThresholdM (m_routingSettings (sample_route three_points 0))"
    by (simp add: facts sample_env_def fix_at_def)
  have seg: "\<not> (debug (sample_env True) \<and> m_matchRoute (m_routingSettings (sample_route three_points 0))
             \<and> pointCount (sample_route three_points 0) \<le> vertexIndex (sample_route three_points 0) + 1)"
    using facts(2) by simp
  have far: "\<not> DistanceOnEarth (sample_env True) (m_pt (m_current (m_poly (sample_route three_points 0))))
            (FromLatLon (sample_env True) (m_latitude (fix_at (1 / 1000) 0)) (m_longitude (fix_at (1 / 1000) 0)))
          < m_matchingThresholdM (m_routingSettings (sample_route three_points 0))"
    by (simp add: facts sample_env_def fix_at_def)
  from T[of "sample_env True" "fix_at (1 / 10000) 0" no_match] near seg
  have a: "\<exists>location'.
         MatchLocationToRoute (sample_env True) (sample_route three_points 0)
           (fix_at (1 / 10000) 0, no_match)
           = Inr (location', Set_info (PointD 0 0) 0 0 no_match)
         \<and> m_latitude location' = 0 \<and> m_longitude location' = 0"
    by (simp add: facts sample_env_def three_points_def sample_route_def)
  from T[of "sample_env True" "fix_at (1 / 1000) 0" no_match] far
  have b: "MatchLocationToRoute (sample_env True) (sample_route three_points 0)
         (fix_at (1 / 1000) 0, no_match) = Inr (fix_at (1 / 1000) 0, no_match)"
    by blast
  have near_last: "DistanceOnEarth (sample_env dbg) (m_pt (m_current (m_poly (sample_route three_points 2))))
            (FromLatLon (sample_env dbg) (m_latitude (fix_at 0 2)) (m_longitude (fix_at 0 2)))
          < m_matchingThresholdM (m_routingSettings (sample_route three_points 2))" for dbg
    by (simp add: last sample_env_def fix_at_def)
  have release: "\<not> debug (sample_env False)" and dbg: "debug (sample_env True)"
    by (simp_all add: sample_env_def)
  from L[of "sample_env False" "fix_at 0 2" no_match] near_last[of False] release
  have c: "\<exists>location'.
         MatchLocationToRoute (sample_env False) (sample_route three_points 2)
           (fix_at 0 2, no_match)
           = Inr (location', Set_info (PointD 2 0) 2 2 no_match)
         \<and> m_latitude location' = 0 \<and> m_longitude location' = 2"
    by (simp add: last sample_env_def three_points_def sample_route_def)
  from L[of "sample_env True" "fix_at 0 2" no_match] near_last[of True] dbg last(2,5)
  have d: "MatchLocationToRoute (sample_env True) (sample_route three_points 2)
         (fix_at 0 2, no_match) = Inl AssertFailed"
    by blast
  from facts(1) last(1) a b c d show ?thesis by blast
qed

text \<open>
  The claim as stated (every fix below the threshold is snapped) fails in a build with
  assertions and route-aligned bearing: with the cursor on the last of three points, or
  on the only point of a polyline of one, a fix on the cursor is not snapped, the call
  stops at \<^verbatim>\<open>ASSERT(false)\<close>.
\<close>

theorem MatchLocationToRoute_on_last_vertex_counterexample:
  "IsValid (m_poly (sample_route three_points 2))
   \<and> DistanceOnEarth (sample_env True) (m_pt (m_current (m_poly (sample_route three_points 2))))
        (FromLatLon (sample_env True) (m_latitude (fix_at 0 2)) (m_longitude (fix_at 0 2))) = 0
   \<and> m_matchingThresholdM (m_routingSettings (sample_route three_points 2)) = 50
   \<and> MatchLocationToRoute (sample_env True) (sample_route three_points 2) (fix_at 0 2, no_match)
        = Inl AssertFailed
   \<and> IsValid (m_poly (sample_route [PointD 0 0] 0))
   \<and> MatchLocationToRoute (sample_env True) (sample_route [PointD 0 0] 0) (fix_at 0 0, no_match)
        = Inl AssertFailed"
  by (simp add: MatchLocationToRoute_def GetPolySegAngle_def ASSERT_def fbind_def Let_def
      IsValid_def sample_route_def three_points_def sample_settings_def fix_at_def)
    (simp add: sample_env_def)

subsection \<open>Empty tables\<close>

text \<open>
  C9 (as amended). In a build without assertions, an empty time table or an empty polyline
  makes \<^verbatim>\<open>GetCurrentTimeToEndSec\<close> return 0, and an empty turn table makes
  \<^verbatim>\<open>GetCurrentTurn(distance, turn)\<close> and \<^verbatim>\<open>GetNextTurn\<close> return false; in a build with
  assertions each of these calls stops at its \<^verbatim>\<open>ASSERT\<close> instead. On an empty street table
  \<^verbatim>\<open>GetCurrentStreetNameIterAfter\<close> returns the end of the table and
  \<^verbatim>\<open>GetCurrentStreetName\<close> the empty name, in either build.
\<close>

theorem empty_tables_not_found_or_assertion:
  "(m_times r = [] \<or> fp_points (m_poly r) = [] \<longrightarrow>
      GetCurrentTimeToEndSec e r = (if debug e then Inl AssertFailed else Inr 0))
   \<and> (m_turns r = [] \<longrightarrow>
      GetCurrentTurnDist e r out = (if debug e then Inl AssertFailed else Inr (False, out))
      \<and> GetNextTurn e r = (if debug e then Inl AssertFailed else Inr (False, 0, DefaultTurnItem e)))
   \<and> (m_streets r = [] \<longrightarrow>
      GetCurrentStreetNameIterAfter r iter = Inr (length (m_streets r))
      \<and> GetCurrentStreetName r = Inr [])"
proof (intro conjI impI)
  assume "m_times r = [] \<or> fp_points (m_poly r) = []"
  then show "GetCurrentTimeToEndSec e r = (if debug e then Inl AssertFailed else Inr 0)"
    by (auto simp: GetCurrentTimeToEndSec_def ASSERT_def Let_def)
next
  assume "m_turns r = []"
  then show "GetCurrentTurnDist e r out = (if debug e then Inl AssertFailed else Inr (False, out))"
    by (simp add: GetCurrentTurnDist_def GetCurrentTurn_def ASSERT_def fbind_def upper_bound_Nil)
next
  assume "m_turns r = []"
  then show "GetNextTurn e r = (if debug e then Inl AssertFailed else Inr (False, 0, DefaultTurnItem e))"
    by (simp add: GetNextTurn_def GetCurrentTurn_def ASSERT_def fbind_def upper_bound_Nil)
next
  assume "m_streets r = []"
  then show "GetCurrentStreetNameIterAfter r iter = Inr (length (m_streets r))"
    by (simp add: GetCurrentStreetNameIterAfter_def)
next
  assume "m_streets r = []"
  then show "GetCurrentStreetName r = Inr []"
    by (simp add: GetCurrentStreetName_def GetCurrentStreetNameIterAfter_def fbind_def)
qed

lemma sample_route_tables:
  "m_times (sample_route pts ind) = []" "m_turns (sample_route pts ind) = []"
  "m_streets (sample_route pts ind) = []"
  by (simp_all add: sample_route_def)

theorem empty_tables_not_found_or_assertion_witness:
  "m_times (sample_route three_points 0) = []
   \<and> m_turns (sample_route three_points 0) = []
   \<and> m_streets (sample_route three_points 0) = []
   \<and> GetCurrentTimeToEndSec (sample_env False) (sample_route three_points 0) = Inr 0
   \<and> GetCurrentTurnDist (sample_env False) (sample_route three_points 0) (7, turn_at 3)
        = Inr (False, 7, turn_at 3)
   \<and> GetNextTurn (sample_env False) (sample_route three_points 0)
        = Inr (False, 0, DefaultTurnItem (sample_env False))
   \<and> GetCurrentStreetNameIterAfter (sample_route three_points 0)
        (m_current (m_poly (sample_route three_points 0))) = Inr 0
   \<and> GetCurrentStreetName (sample_route three_points 0) = Inr []"
proof -
  have release: "\<not> debug (sample_env False)"
    by (simp add: sample_env_def)
  from empty_tables_not_found_or_assertion
         [of "sample_route three_points 0" "sample_env False" "(7, turn_at 3)"
             "m_current (m_poly (sample_route three_points 0))"]
       release
  show ?thesis
    by (simp add: sample_route_tables)
qed

text \<open>
  The claim as stated (0 or not-found and never a fault) fails in a build with assertions:
  on a route with empty tables the time and the turn query stop at \<^verbatim>\<open>ASSERT\<close>.
\<close>

theorem empty_tables_with_assertions_counterexample:
  "m_times (sample_route three_points 0) = []
   \<and> m_turns (sample_route three_points 0) = []
   \<and> GetCurrentTimeToEndSec (sample_env True) (sample_route three_points 0) = Inl AssertFailed
   \<and> GetCurrentTurnDist (sample_env True) (sample_route three_points 0) (7, turn_at 3)
        = Inl AssertFailed"
  by (simp add: sample_route_tables GetCurrentTimeToEndSec_def GetCurrentTurnDist_def
      GetCurrentTurn_def ASSERT_def fbind_def Let_def)
    (simp add: sample_env_def)

subsection \<open>Time to the end on a bracket without length\<close>





subsection \<open>The wire document\<close>

lemma fbind_Inr_iff: "fbind m f = Inr y \<longleftrightarrow> (\<exists>v. m = Inr v \<and> f v = Inr y)"
  by (cases m) (simp_all add: fbind_def)

lemma fbind_Inl: "fbind (Inl err) f = Inl err"
  by (simp add: fbind_def)

lemma fbind_Inr: "fbind (Inr v) f = f v"
  by (simp add: fbind_def)

lemma for_each_decode_point:
  "for_each (decode_point e)
     (map (\<lambda>routePoint.
             JObject [(''latitude'', JDouble (YToLat e (pt_y routePoint))),
                      (''longitude'', JDouble (XToLon e (pt_x routePoint)))]) pts)
   = Inr (map (\<lambda>p. FromLatLon e (YToLat e (pt_y p)) (XToLon e (pt_x p))) pts)"
  by (induction pts) (simp_all add: decode_point_def member_def GetDouble_def fbind_Inr)

lemma for_each_decode_time_faults:
  "ts \<noteq> [] \<Longrightarrow>
   for_each decode_time
     (map (\<lambda>routeTime.
             JObject [(''time'', JDouble (snd routeTime)),
                      (''index'', JInt (int (fst routeTime)))]) ts)
   = Inl (JsonFault ''latitude'')"
  by (cases ts) (simp_all add: decode_time_def member_def fbind_Inl)

lemma encoded_document:
  assumes "GetMeRouteAsJson e r = Inr document"
  shows "member document ''points'' =
           Inr (JArray (map (\<lambda>routePoint.
                  JObject [(''latitude'', JDouble (YToLat e (pt_y routePoint))),
                           (''longitude'', JDouble (XToLon e (pt_x routePoint)))])
                  (fp_points (m_poly r))))"
    and "member document ''times'' =
           Inr (JArray (map (\<lambda>routeTime.
                  JObject [(''time'', JDouble (snd routeTime)),
                           (''index'', JInt (int (fst routeTime)))]) (m_times r)))"
    and "\<exists>instructions. instructions_loop r 0 0 (m_turns r) = Inr instructions
           \<and> member document ''instructions'' = Inr (JArray instructions)"
    and "member document ''absentCountries'' = Inr (JArray (map JString (m_absentCountries r)))"
    and "member document ''turns'' = Inr (JArray (map JDouble (GetTurnsDistances e r)))"
  using assms
  by (auto simp: GetMeRouteAsJson_def Let_def fbind_Inr_iff member_def)

lemma decode_time_reads_latitude_longitude:
  assumes "member item ''latitude'' = Inr (JDouble time)"
    and "member item ''longitude'' = Inr (JInt index)"
    and "0 \<le> index" and "index < 2 ^ 31"
  shows "decode_time item = Inr (nat index, time)"
proof -
  from assms(3,4) have "uint32_of_double (real_of_int index) = Inr (nat index)"
    by (simp add: uint32_of_double_def)
  with assms show ?thesis
    by (simp add: decode_time_def fbind_Inr GetDouble_def GetInt_def)
qed

lemma FromJson_faults_on_times:
  assumes "m_times r \<noteq> []" and "GetMeRouteAsJson e r = Inr document"
  shows "FromJson e target document = Inl (JsonFault ''latitude'')"
  using assms(1)
  by (simp add: FromJson_def encoded_document[OF assms(2)] fbind_Inr fbind_Inl GetArray_def
      for_each_decode_point for_each_decode_time_faults)

text \<open>
  C5. The encoder writes every time checkpoint as an object with the members \<open>time\<close>
  (cumulative seconds) and \<open>index\<close> (vertex index); the decoder takes the checkpoint's
  time from a member \<open>latitude\<close> and its index from a member \<open>longitude\<close>. So for a route
  with a time table that is not empty, \<^verbatim>\<open>FromJson\<close> on the encoded document stops at the
  absent member \<open>latitude\<close>, and encoding then decoding does not give the time table
  back, whatever route it is decoded into.
\<close>

theorem times_field_names_break_round_trip:
  assumes "m_times r \<noteq> []"
  shows "(\<forall>document. GetMeRouteAsJson e r = Inr document \<longrightarrow>
            member document ''times'' =
              Inr (JArray (map (\<lambda>routeTime.
                     JObject [(''time'', JDouble (snd routeTime)),
                              (''index'', JInt (int (fst routeTime)))]) (m_times r))))
       \<and> (\<forall>item time index.
            member item ''latitude'' = Inr (JDouble time)
            \<and> member item ''longitude'' = Inr (JInt index) \<and> 0 \<le> index \<and> index < 2 ^ 31 \<longrightarrow>
            decode_time item = Inr (nat index, time))
       \<and> (\<forall>document. GetMeRouteAsJson e r = Inr document \<longrightarrow>
            FromJson e target document = Inl (JsonFault ''latitude''))
       \<and> \<not> (\<exists>r'. round_trip e target r = Inr r' \<and> m_times r' = m_times r)"
proof (intro conjI allI impI)
  fix document
  assume "GetMeRouteAsJson e r = Inr document"
  then show "member document ''times'' =
              Inr (JArray (map (\<lambda>routeTime.
                     JObject [(''time'', JDouble (snd routeTime)),
                              (''index'', JInt (int (fst routeTime)))]) (m_times r)))"
    by (rule encoded_document(2))
next
  fix item time index
  assume "member item ''latitude'' = Inr (JDouble time)
            \<and> member item ''longitude'' = Inr (JInt index) \<and> 0 \<le> index \<and> index < 2 ^ 31"
  then show "decode_time item = Inr (nat index, time)"
    by (simp add: decode_time_reads_latitude_longitude)
next
  fix document
  assume "GetMeRouteAsJson e r = Inr document"
  with assms show "FromJson e target document = Inl (JsonFault ''latitude'')"
    by (rule FromJson_faults_on_times)
next
  show "\<not> (\<exists>r'. round_trip e target r = Inr r' \<and> m_times r' = m_times r)"
  proof
    assume "\<exists>r'. round_trip e target r = Inr r' \<and> m_times r' = m_times r"
    then obtain r' document where "GetMeRouteAsJson e r = Inr document"
      and "FromJson e target document = Inr r'"
      by (auto simp: round_trip_def fbind_Inr_iff)
    with FromJson_faults_on_times[OF assms] show False
      by simp
  qed
qed

lemma example_route_encodes:
  "\<exists>document. GetMeRouteAsJson (sample_env False) example_route = Inr document"
  by (simp add: GetMeRouteAsJson_def Let_def example_route_def sample_route_def fbind_Inr
      GetTotalTimeSec_def uint32_of_double_def)

theorem times_field_names_break_round_trip_witness:
  "m_times example_route = [(1, 10), (2, 30)]
   \<and> (\<exists>document. GetMeRouteAsJson (sample_env False) example_route = Inr document
         \<and> member document ''times'' =
             Inr (JArray [JObject [(''time'', JDouble 10), (''index'', JInt 1)],
                          JObject [(''time'', JDouble 30), (''index'', JInt 2)]])
         \<and> FromJson (sample_env False) empty_route document = Inl (JsonFault ''latitude''))
   \<and> round_trip (sample_env False) empty_route example_route = Inl (JsonFault ''latitude'')"
proof -
  have t: "m_times example_route = [(1, 10), (2, 30)]"
    by (simp add: example_route_def)
  then have ne: "m_times example_route \<noteq> []" by simp
  note T = times_field_names_break_round_trip[OF ne, of "sample_env False" empty_route]
  from example_route_encodes obtain document
    where d: "GetMeRouteAsJson (sample_env False) example_route = Inr document" ..
  from T d have "member document ''times'' =
      Inr (JArray (map (\<lambda>routeTime.
             JObject [(''time'', JDouble (snd routeTime)),
                      (''index'', JInt (int (fst routeTime)))]) (m_times example_route)))"
    and f: "FromJson (sample_env False) empty_route document = Inl (JsonFault ''latitude'')"
    by blast+
  then have m: "member document ''times'' =
             Inr (JArray [JObject [(''time'', JDouble 10), (''index'', JInt 1)],
                          JObject [(''time'', JDouble 30), (''index'', JInt 2)]])"
    by (simp add: t)
  from d f have "round_trip (sample_env False) empty_route example_route = Inl (JsonFault ''latitude'')"
    by (simp add: round_trip_def fbind_Inr)
  with t d m f show ?thesis by blast
qed

lemma uint32_of_int_nat: "n < 2 ^ 31 \<Longrightarrow> uint32_of_int (int n) = n"
proof -
  assume "n < 2 ^ 31"
  then have "int n < 2 ^ 32" by simp
  then have "int n mod 2 ^ 32 = int n" by simp
  then show ?thesis by (simp add: uint32_of_int_def)
qed

lemma GetInt_nat: "n < 2 ^ 31 \<Longrightarrow> GetInt (JInt (int n)) = Inr (int n)"
  by (simp add: GetInt_def)

lemma decode_turn_encoded:
  assumes "m_index t < 2 ^ 31" and "m_turn t < 2 ^ 31" and "m_exitNum t < 2 ^ 31"
    and "m_pedestrianTurn t < 2 ^ 31"
  shows "decode_turn
           (JObject
              [(''streetSource'', JString (m_sourceName t)),
               (''streetTarget'', JString (m_targetName t)),
               (''exitNumber'', JInt (int (m_exitNum t))),
               (''exited'', JBool exited),
               (''turnDirection'', JInt (int (m_turn t))),
               (''pedestrianDirection'', JInt (int (m_pedestrianTurn t))),
               (''startInterval'', JInt (int previousIndex)),
               (''endInterval'', JInt (int (m_index t))),
               (''time'', JDouble s),
               (''keepAnyways'', JBool (m_keepAnyway t))]) = Inr t"
  using assms
  by (simp add: decode_turn_def member_def fbind_Inr GetInt_nat GetBool_def GetString_def
      uint32_of_int_nat)

lemma for_each_decode_turn:
  assumes "\<forall>t\<in>set ts. m_index t < 2 ^ 31 \<and> m_turn t < 2 ^ 31 \<and> m_exitNum t < 2 ^ 31
             \<and> m_pedestrianTurn t < 2 ^ 31"
    and "instructions_loop r i previousIndex ts = Inr instructions"
  shows "for_each decode_turn instructions = Inr ts"
  using assms
proof (induction ts arbitrary: i previousIndex instructions)
  case Nil
  then show ?case by simp
next
  case (Cons t ts)
  from Cons.prems(2) obtain more where
    more: "instructions_loop r (i + 1) (m_index t) ts = Inr more"
    and ins: "instructions =
      JObject
        [(''streetSource'', JString (m_sourceName t)),
         (''streetTarget'', JString (m_targetName t)),
         (''exitNumber'', JInt (int (m_exitNum t))),
         (''exited'', JBool (m_exitNum t \<noteq> 0)),
         (''turnDirection'', JInt (int (m_turn t))),
         (''pedestrianDirection'', JInt (int (m_pedestrianTurn t))),
         (''startInterval'', JInt (int previousIndex)),
         (''endInterval'', JInt (int (m_index t))),
         (''time'', JDouble (snd (m_times r ! i))),
         (''keepAnyways'', JBool (m_keepAnyway t))] # more"
    by (auto simp: fbind_Inr_iff split: if_splits)
  from Cons.prems(1) have rest: "for_each decode_turn more = Inr ts"
    using Cons.IH[OF _ more] by simp
  from Cons.prems(1) have "decode_turn (hd instructions) = Inr t"
    unfolding ins by (simp add: decode_turn_encoded)
  with rest show ?case
    unfolding ins by (simp add: fbind_Inr)
qed

lemma encoded_streets:
  assumes "GetMeRouteAsJson e r = Inr document"
  shows "member document ''streets'' =
           Inr (JArray (map (\<lambda>routeStreet.
                  JObject [(''name'', JString (snd routeStreet)),
                           (''index'', JInt (int (fst routeStreet)))]) (m_streets r)))"
  using assms
  by (auto simp: GetMeRouteAsJson_def Let_def fbind_Inr_iff member_def)

lemma SetGeometry_fields:
  "fp_points (m_poly (SetGeometry e points r)) = points"
  "m_absentCountries (SetGeometry e points r) = m_absentCountries r"
  by (simp_all add: SetGeometry_def Update_def MakeFollowedPolyline_def)

lemma FromJson_result:
  assumes "FromJson e target document = Inr r'"
  shows "\<exists>pointItems points turnItems routeTurns.
           member document ''points'' = Inr (JArray pointItems)
           \<and> for_each (decode_point e) pointItems = Inr points
           \<and> member document ''instructions'' = Inr (JArray turnItems)
           \<and> for_each decode_turn turnItems = Inr routeTurns
           \<and> fp_points (m_poly r') = points \<and> m_turns r' = routeTurns
           \<and> m_absentCountries r' = m_absentCountries target"
proof -
  from assms obtain jsonPoints pointItems points jsonTurns turnItems routeTurns routeTimes streets
    where "member document ''points'' = Inr jsonPoints" "GetArray jsonPoints = Inr pointItems"
      "for_each (decode_point e) pointItems = Inr points"
      "member document ''instructions'' = Inr jsonTurns" "GetArray jsonTurns = Inr turnItems"
      "for_each decode_turn turnItems = Inr routeTurns"
      "r' = (SetGeometry e points target)
              \<lparr>m_turns := routeTurns, m_times := routeTimes, m_streets := streets\<rparr>"
    unfolding FromJson_def fbind_Inr_iff by blast
  moreover from this have "jsonPoints = JArray pointItems" "jsonTurns = JArray turnItems"
    by (auto simp: GetArray_def split: json.splits)
  ultimately show ?thesis
    by (simp add: SetGeometry_fields)
qed

lemma member_with_times:
  assumes "GetMeRouteAsJson e r = Inr document"
  shows "member (with_times document ts) name =
           (if name = ''times'' then Inr ts else member document name)"
  using assms
  by (auto simp: GetMeRouteAsJson_def Let_def fbind_Inr_iff member_def with_times_def)

lemma for_each_decode_time_as_read:
  "\<forall>t\<in>set ts. fst t < 2 ^ 31 \<Longrightarrow>
   for_each decode_time
     (map (\<lambda>routeTime.
             JObject [(''latitude'', JDouble (snd routeTime)),
                      (''longitude'', JInt (int (fst routeTime)))]) ts)
   = Inr ts"
proof (induction ts)
  case Nil
  then show ?case by simp
next
  case (Cons t ts)
  have "decode_time (JObject [(''latitude'', JDouble (snd t)), (''longitude'', JInt (int (fst t)))])
        = Inr (nat (int (fst t)), snd t)"
    using Cons.prems
    by (intro decode_time_reads_latitude_longitude) (simp_all add: member_def)
  with Cons show ?case
    by (simp add: fbind_Inr)
qed

lemma for_each_decode_street:
  "\<forall>s\<in>set ss. fst s < 2 ^ 31 \<Longrightarrow>
   for_each decode_street
     (map (\<lambda>routeStreet.
             JObject [(''name'', JString (snd routeStreet)),
                      (''index'', JInt (int (fst routeStreet)))]) ss)
   = Inr ss"
proof (induction ss)
  case Nil
  then show ?case by simp
next
  case (Cons s ss)
  from Cons.prems have "uint32_of_double (real_of_int (int (fst s))) = Inr (fst s)"
    by (simp add: uint32_of_double_def)
  with Cons show ?case
    by (simp add: decode_street_def member_def fbind_Inr GetString_def GetInt_nat)
qed

text \<open>
  C4 (as amended). For a route that \<^verbatim>\<open>GetMeRouteAsJson\<close> encodes and whose indices and
  turn fields fit an \<^verbatim>\<open>int\<close>: on the encoded document with the entries of its \<open>times\<close>
  array under the names \<^verbatim>\<open>FromJson\<close> reads, \<^verbatim>\<open>FromJson\<close> completes, and the route it
  leaves has the point count and the turn-direction codes of the encoded route; on the
  document as encoded it leaves those whenever it completes. In both cases the absent
  countries are those of the route \<^verbatim>\<open>FromJson\<close> was called on: it does not read
  \<open>absentCountries\<close>.
\<close>

theorem round_trip_modulo_times_and_absent_countries:
  assumes enc: "GetMeRouteAsJson e r = Inr document"
    and fits: "\<forall>t\<in>set (m_turns r). m_index t < 2 ^ 31 \<and> m_turn t < 2 ^ 31 \<and> m_exitNum t < 2 ^ 31
                 \<and> m_pedestrianTurn t < 2 ^ 31"
    and fits_times: "\<forall>t\<in>set (m_times r). fst t < 2 ^ 31"
    and fits_streets: "\<forall>s\<in>set (m_streets r). fst s < 2 ^ 31"
  shows "(\<exists>r'. FromJson e target (with_times document (times_as_read r)) = Inr r'
            \<and> pointCount r' = pointCount r
            \<and> map m_turn (m_turns r') = map m_turn (m_turns r)
            \<and> m_absentCountries r' = m_absentCountries target)
       \<and> (\<forall>r'. FromJson e target document = Inr r' \<longrightarrow>
            pointCount r' = pointCount r
            \<and> map m_turn (m_turns r') = map m_turn (m_turns r)
            \<and> m_absentCountries r' = m_absentCountries target)"
proof -
  note doc = encoded_document[OF enc] encoded_streets[OF enc]
  from doc(3) obtain instructions where
    loop: "instructions_loop r 0 0 (m_turns r) = Inr instructions"
    and ins: "member document ''instructions'' = Inr (JArray instructions)"
    by blast
  have turns: "for_each decode_turn instructions = Inr (m_turns r)"
    using fits loop by (rule for_each_decode_turn)
  have pts: "for_each (decode_point e)
       (map (\<lambda>routePoint.
               JObject [(''latitude'', JDouble (YToLat e (pt_y routePoint))),
                        (''longitude'', JDouble (XToLon e (pt_x routePoint)))])
          (fp_points (m_poly r)))
     = Inr (map (\<lambda>p. FromLatLon e (YToLat e (pt_y p)) (XToLon e (pt_x p))) (fp_points (m_poly r)))"
    by (rule for_each_decode_point)
  have completes: "FromJson e target (with_times document (times_as_read r)) =
      Inr ((SetGeometry e
              (map (\<lambda>p. FromLatLon e (YToLat e (pt_y p)) (XToLon e (pt_x p))) (fp_points (m_poly r)))
              target)
             \<lparr>m_turns := m_turns r, m_times := m_times r, m_streets := m_streets r\<rparr>)"
    using fits_times fits_streets
    by (simp add: FromJson_def member_with_times[OF enc] doc(1,6) ins fbind_Inr GetArray_def
        pts turns times_as_read_def for_each_decode_time_as_read for_each_decode_street)
  have a: "\<exists>r'. FromJson e target (with_times document (times_as_read r)) = Inr r'
            \<and> pointCount r' = pointCount r
            \<and> map m_turn (m_turns r') = map m_turn (m_turns r)
            \<and> m_absentCountries r' = m_absentCountries target"
    unfolding completes by (simp add: pointCount_def SetGeometry_fields)
  have b: "pointCount r' = pointCount r
            \<and> map m_turn (m_turns r') = map m_turn (m_turns r)
            \<and> m_absentCountries r' = m_absentCountries target"
    if "FromJson e target document = Inr r'" for r'
  proof -
    from FromJson_result[OF that] doc(1) pts ins turns
    have "fp_points (m_poly r')
            = map (\<lambda>p. FromLatLon e (YToLat e (pt_y p)) (XToLon e (pt_x p))) (fp_points (m_poly r))"
      and "m_turns r' = m_turns r"
      and "m_absentCountries r' = m_absentCountries target"
      by auto
    then show ?thesis
      by (simp add: pointCount_def)
  qed
  from a b show ?thesis by blast
qed

lemma example_route_simps:
  "m_turns example_route = [turn_at 1]" "m_times example_route = [(1, 10), (2, 30)]"
  "m_streets example_route = [(0, ''Main St'')]" "m_absentCountries example_route = [''Atlantis'']"
  "pointCount example_route = 3"
  by (simp_all add: example_route_def sample_route_def pointCount_def three_points_def)

theorem round_trip_modulo_times_and_absent_countries_witness:
  "map m_turn (m_turns example_route) = [2]
   \<and> m_absentCountries example_route = [''Atlantis'']
   \<and> (\<exists>document r'.
        GetMeRouteAsJson (sample_env False) example_route = Inr document
        \<and> FromJson (sample_env False) empty_route (with_times document (times_as_read example_route))
            = Inr r'
        \<and> pointCount r' = 3 \<and> map m_turn (m_turns r') = [2] \<and> m_absentCountries r' = [])"
proof -
  note x = example_route_simps
  from example_route_encodes obtain document
    where d: "GetMeRouteAsJson (sample_env False) example_route = Inr document" ..
  have fits: "\<forall>t\<in>set (m_turns example_route). m_index t < 2 ^ 31 \<and> m_turn t < 2 ^ 31
                 \<and> m_exitNum t < 2 ^ 31 \<and> m_pedestrianTurn t < 2 ^ 31"
    by (simp add: x turn_at_def)
  have ft: "\<forall>t\<in>set (m_times example_route). fst t < 2 ^ 31"
    by (simp add: x)
  have fs: "\<forall>s\<in>set (m_streets example_route). fst s < 2 ^ 31"
    by (simp add: x)
  from round_trip_modulo_times_and_absent_countries[OF d fits ft fs, of empty_route]
  obtain r' where
    "FromJson (sample_env False) empty_route (with_times document (times_as_read example_route)) = Inr r'"
    "pointCount r' = pointCount example_route"
    "map m_turn (m_turns r') = map m_turn (m_turns example_route)"
    "m_absentCountries r' = m_absentCountries empty_route"
    by blast
  with d have "\<exists>document r'.
        GetMeRouteAsJson (sample_env False) example_route = Inr document
        \<and> FromJson (sample_env False) empty_route (with_times document (times_as_read example_route))
            = Inr r'
        \<and> pointCount r' = 3 \<and> map m_turn (m_turns r') = [2] \<and> m_absentCountries r' = []"
    by (intro exI[of _ document] exI[of _ r']) (simp add: x turn_at_def empty_route_def)
  then show ?thesis
    by (simp add: x turn_at_def)
qed

lemma FromJson_completes_without_tables:
  assumes "m_times r = []" and "m_streets r = []" and "m_turns r = []"
    and enc: "GetMeRouteAsJson e r = Inr document"
  shows "\<exists>r'. FromJson e target document = Inr r'"
proof -
  note doc = encoded_document[OF enc] encoded_streets[OF enc]
  from doc(3) assms(3) have "member document ''instructions'' = Inr (JArray [])"
    by auto
  with doc(1,2,6) assms(1,2) show ?thesis
    by (simp add: FromJson_def fbind_Inr GetArray_def for_each_decode_point)
qed

lemma absent_route_simps:
  "m_times absent_route = []" "m_streets absent_route = []" "m_turns absent_route = []"
  "m_absentCountries absent_route = [''Atlantis'']" "pointCount absent_route = 3"
  by (simp_all add: absent_route_def sample_route_def pointCount_def three_points_def)

lemma absent_route_encodes:
  "\<exists>document. GetMeRouteAsJson (sample_env False) absent_route = Inr document"
  by (simp add: GetMeRouteAsJson_def Let_def absent_route_def sample_route_def fbind_Inr
      GetTotalTimeSec_def)

text \<open>
  The claim as stated fails: a route of three points that lacks the maps of one country,
  encoded and decoded into a route without absent countries, comes back without that
  country; and the route of the example (one turn, two time checkpoints) does not come
  back at all.
\<close>

theorem round_trip_loses_absent_countries_counterexample:
  "m_absentCountries absent_route = [''Atlantis'']
   \<and> (\<exists>r'. round_trip (sample_env False) empty_route absent_route = Inr r'
          \<and> m_absentCountries r' = [])
   \<and> round_trip (sample_env False) empty_route example_route = Inl (JsonFault ''latitude'')"
proof -
  from absent_route_encodes obtain d1
    where d1: "GetMeRouteAsJson (sample_env False) absent_route = Inr d1" ..
  from FromJson_completes_without_tables[OF absent_route_simps(1,2,3) d1] obtain r'
    where r': "FromJson (sample_env False) empty_route d1 = Inr r'" ..
  from FromJson_result[OF r'] have "m_absentCountries r' = []"
    by (auto simp: empty_route_def)
  with d1 r' have first: "\<exists>r'. round_trip (sample_env False) empty_route absent_route = Inr r'
          \<and> m_absentCountries r' = []"
    by (simp add: round_trip_def fbind_Inr)
  from example_route_encodes obtain d2
    where d2: "GetMeRouteAsJson (sample_env False) example_route = Inr d2" ..
  have "m_times example_route \<noteq> []"
    by (simp add: example_route_def)
  from FromJson_faults_on_times[OF this d2, of empty_route] d2
  have second: "round_trip (sample_env False) empty_route example_route = Inl (JsonFault ''latitude'')"
    by (simp add: round_trip_def fbind_Inr)
  from first second show ?thesis
    by (simp add: absent_route_simps)
qed

subsection \<open>The distances of the turns\<close>

lemma GetTurnsDistances_loop_cumulative:
  assumes "sorted (start # map m_index ts)"
    and "\<forall>t\<in>set ts. m_index t < length pts"
    and "start = (case former of None \<Rightarrow> 0 | Some t \<Rightarrow> m_index t)"
  shows "GetTurnsDistances_loop e pts former acc ts =
           cumulative_distances e pts start acc
             [t \<leftarrow> ts. \<not> (m_index t = 0 \<or> m_index t = size_minus_1 (length pts))]"
  using assms
proof (induction ts arbitrary: former start acc)
  case Nil
  then show ?case by simp
next
  case (Cons t ts)
  have srt: "sorted (m_index t # map m_index ts)"
    using Cons.prems(1) by simp
  have bound: "\<forall>u\<in>set ts. m_index u < length pts"
    using Cons.prems(2) by simp
  have IH: "GetTurnsDistances_loop e pts (Some t) a ts =
           cumulative_distances e pts (m_index t) a
             [u \<leftarrow> ts. \<not> (m_index u = 0 \<or> m_index u = size_minus_1 (length pts))]" for a
    by (rule Cons.IH[OF srt bound]) simp
  show ?case
  proof (cases "m_index t = 0 \<or> m_index t = size_minus_1 (length pts)")
    case False
    with IH Cons.prems(3) show ?thesis by simp
  next
    case True
    show ?thesis
    proof (cases "m_index t = 0")
      case zero: True
      with Cons.prems(1) have "start = 0" by simp
      with zero IH True show ?thesis by simp
    next
      case nonzero: False
      with True have last: "m_index t = size_minus_1 (length pts)" by simp
      from Cons.prems(2) have "0 < length pts" by auto
      with last have eq: "m_index t = length pts - 1"
        by (simp add: size_minus_1_def)
      have "m_index u = size_minus_1 (length pts)" if "u \<in> set ts" for u
      proof -
        from srt that have "m_index t \<le> m_index u" by auto
        moreover from bound that have "m_index u < length pts" by simp
        ultimately show ?thesis using eq last by simp
      qed
      then have "[u \<leftarrow> ts. \<not> (m_index u = 0 \<or> m_index u = size_minus_1 (length pts))] = []"
        by (auto simp: filter_empty_conv)
      with IH True show ?thesis by simp
    qed
  qed
qed

lemma length_cumulative_distances:
  "length (cumulative_distances e pts start acc ds) = length ds"
  by (induction ds arbitrary: start acc) simp_all

lemma nth_cumulative_distances:
  "k < length ds \<Longrightarrow>
   cumulative_distances e pts start acc ds ! k =
     (if k = 0 then acc else cumulative_distances e pts start acc ds ! (k - 1))
     + CalculateMercatorDistanceAlongPath e
         (if k = 0 then start else m_index (ds ! (k - 1))) (m_index (ds ! k)) pts"
proof (induction ds arbitrary: start acc k)
  case Nil
  then show ?case by simp
next
  case (Cons d ds)
  show ?case
  proof (cases k)
    case 0
    then show ?thesis by simp
  next
    case (Suc j)
    with Cons.prems have j: "j < length ds" by simp
    show ?thesis
    proof (cases j)
      case 0
      with Suc Cons.IH[OF j] show ?thesis by simp
    next
      case (Suc i)
      with \<open>k = Suc j\<close> Cons.IH[OF j] show ?thesis by simp
    qed
  qed
qed

text \<open>
  C8 (as amended). For a turn table in ascending order whose entries are vertices of the
  polyline, the \<open>turns\<close> array of the encoded document holds exactly one value per
  displayable turn (a turn on vertex 0 or on the last vertex is left out), and each
  value is the value before it (0 for the first) plus the path distance from the
  displayable turn before (the begin of the route for the first) to this turn, as
  \<^verbatim>\<open>CalculateMercatorDistanceAlongPath\<close> measures it: in the units of the Mercator
  projection, as \<open>distanceMercator\<close> is, and not in metres.
\<close>

theorem turns_array_holds_cumulative_mercator_distances:
  assumes sorted: "sorted (map m_index (m_turns r))"
    and vertices: "\<forall>t\<in>set (m_turns r). m_index t < pointCount r"
  shows "length (GetTurnsDistances e r) = length (displayable r)
       \<and> (\<forall>k<length (displayable r).
            GetTurnsDistances e r ! k =
              (if k = 0 then 0 else GetTurnsDistances e r ! (k - 1))
              + CalculateMercatorDistanceAlongPath e
                  (if k = 0 then 0 else m_index (displayable r ! (k - 1)))
                  (m_index (displayable r ! k)) (fp_points (m_poly r)))
       \<and> (\<forall>document. GetMeRouteAsJson e r = Inr document \<longrightarrow>
            member document ''turns'' = Inr (JArray (map JDouble (GetTurnsDistances e r))))"
proof -
  have "sorted (0 # map m_index (m_turns r))"
    using sorted by simp
  moreover have "\<forall>t\<in>set (m_turns r). m_index t < length (fp_points (m_poly r))"
    using vertices by (simp add: pointCount_def)
  ultimately have eq: "GetTurnsDistances e r =
      cumulative_distances e (fp_points (m_poly r)) 0 0 (displayable r)"
    unfolding GetTurnsDistances_def displayable_def pointCount_def
    by (rule GetTurnsDistances_loop_cumulative) simp
  have len: "length (GetTurnsDistances e r) = length (displayable r)"
    by (simp add: eq length_cumulative_distances)
  have inc: "GetTurnsDistances e r ! k =
              (if k = 0 then 0 else GetTurnsDistances e r ! (k - 1))
              + CalculateMercatorDistanceAlongPath e
                  (if k = 0 then 0 else m_index (displayable r ! (k - 1)))
                  (m_index (displayable r ! k)) (fp_points (m_poly r))"
    if "k < length (displayable r)" for k
    unfolding eq using that by (rule nth_cumulative_distances)
  have doc: "member document ''turns'' = Inr (JArray (map JDouble (GetTurnsDistances e r)))"
    if "GetMeRouteAsJson e r = Inr document" for document
    using that by (rule encoded_document(5))
  from len inc doc show ?thesis by blast
qed

lemma four_turn_route_simps:
  "m_turns four_turn_route = [turn_at 0, turn_at 1, turn_at 3, turn_at 4]"
  "pointCount four_turn_route = 5"
  "fp_points (m_poly four_turn_route) = [PointD 0 0, PointD 1 0, PointD 2 0, PointD 3 0, PointD 4 0]"
  by (simp_all add: four_turn_route_def sample_route_def pointCount_def)

lemma displayable_four_turn_route: "displayable four_turn_route = [turn_at 1, turn_at 3]"
  by (simp add: displayable_def four_turn_route_simps turn_at_def size_minus_1_def)

theorem turns_array_holds_cumulative_mercator_distances_witness:
  "map m_index (m_turns four_turn_route) = [0, 1, 3, 4]
   \<and> pointCount four_turn_route = 5
   \<and> map m_index (displayable four_turn_route) = [1, 3]
   \<and> length (GetTurnsDistances (sample_env False) four_turn_route) = 2
   \<and> GetTurnsDistances (sample_env False) four_turn_route ! 0 = 1
   \<and> GetTurnsDistances (sample_env False) four_turn_route ! 1 = 3"
proof -
  note f = four_turn_route_simps
  have s: "sorted (map m_index (m_turns four_turn_route))"
    by (simp add: f turn_at_def)
  have v: "\<forall>t\<in>set (m_turns four_turn_route). m_index t < pointCount four_turn_route"
    by (simp add: f turn_at_def)
  note T = turns_array_holds_cumulative_mercator_distances[OF s v, of "sample_env False"]
  from T have len: "length (GetTurnsDistances (sample_env False) four_turn_route) = 2"
    by (simp add: displayable_four_turn_route)
  from T have "GetTurnsDistances (sample_env False) four_turn_route ! 0 =
      (if (0::nat) = 0 then 0 else GetTurnsDistances (sample_env False) four_turn_route ! (0 - 1))
      + CalculateMercatorDistanceAlongPath (sample_env False)
          (if (0::nat) = 0 then 0 else m_index (displayable four_turn_route ! (0 - 1)))
          (m_index (displayable four_turn_route ! 0)) (fp_points (m_poly four_turn_route))"
    by (simp add: displayable_four_turn_route)
  then have d0: "GetTurnsDistances (sample_env False) four_turn_route ! 0 = 1"
    by (simp add: displayable_four_turn_route f turn_at_def sample_env_def)
  from T have "GetTurnsDistances (sample_env False) four_turn_route ! 1 =
      (if (1::nat) = 0 then 0 else GetTurnsDistances (sample_env False) four_turn_route ! (1 - 1))
      + CalculateMercatorDistanceAlongPath (sample_env False)
          (if (1::nat) = 0 then 0 else m_index (displayable four_turn_route ! (1 - 1)))
          (m_index (displayable four_turn_route ! 1)) (fp_points (m_poly four_turn_route))"
    by (simp add: displayable_four_turn_route)
  with d0 have d1: "GetTurnsDistances (sample_env False) four_turn_route ! 1 = 3"
    by (simp add: displayable_four_turn_route f turn_at_def sample_env_def)
  from len d0 d1 show ?thesis
    by (simp add: f displayable_four_turn_route turn_at_def)
qed

text \<open>
  The claim as stated (distances in metres) fails wherever a Mercator unit is not a
  metre: on three points one unit apart with a turn on the middle one the array holds
  1, and the distance in metres from the begin to the turn is 111000.
\<close>

theorem turns_array_is_not_in_metres_counterexample:
  "map m_index (m_turns one_turn_route) = [1]
   \<and> GetTurnsDistances (sample_env False) one_turn_route = [1]
   \<and> distFn (sample_env False) (m_poly one_turn_route) 0 1 = 111000
   \<and> DistanceOnEarth (sample_env False) (three_points ! 0) (three_points ! 1) = 111000"
  by (simp add: one_turn_route_def sample_route_def three_points_def turn_at_def
      GetTurnsDistances_def size_minus_1_def distFn_def)
    (simp add: sample_env_def)

subsection \<open>The street name after an index\<close>

lemma street_scan_total:
  "curIter < length ss \<Longrightarrow> prevIter < curIter \<Longrightarrow>
   \<exists>k\<le>length ss. street_scan ss ind prevIter curIter = Inr k"
proof (induction ss ind prevIter curIter rule: street_scan.induct)
  case (1 ss ind prevIter curIter)
  show ?case
  proof (cases "fst (ss ! curIter) < ind")
    case False
    with "1.prems" show ?thesis
      by (subst street_scan.simps) auto
  next
    case True
    show ?thesis
    proof (cases "curIter + 1 = length ss")
      case True
      with \<open>fst (ss ! curIter) < ind\<close> "1.prems" show ?thesis
        by (subst street_scan.simps) simp
    next
      case False
      with "1.prems" have "curIter + 1 < length ss" by simp
      with "1.IH"[OF _ True False] "1.prems" obtain k where
        "k \<le> length ss" "street_scan ss ind (prevIter + 1) (curIter + 1) = Inr k"
        by auto
      with True False "1.prems" show ?thesis
        by (subst street_scan.simps) simp
    qed
  qed
qed

lemma street_name_loop_first_name:
  "street_name_loop e p polyIter ss =
     (case dropWhile (\<lambda>s. snd s = []) ss of
        [] \<Rightarrow> []
      | s # _ \<Rightarrow>
          if GetDistanceM e p polyIter
               (GetIterToIndex e p (max (fst s) (uint32_of_size (m_ind polyIter))))
             < kSteetNameLinkMeters
          then snd s else [])"
  by (induction ss) simp_all

text \<open>
  On a street table that is empty or has at least two entries, \<^verbatim>\<open>GetStreetNameAfterIdx\<close>
  starts at the entry \<^verbatim>\<open>GetCurrentStreetNameIterAfter\<close> returns, passes the entries
  without a name, and returns the first name it finds when the distance to it is below
  400 metres, the empty name otherwise or when there is none.
\<close>

lemma GetStreetNameAfterIdx_lookahead:
  assumes "length (m_streets r) \<noteq> 1"
  shows "\<exists>it\<le>length (m_streets r).
           GetCurrentStreetNameIterAfter r (GetIterToIndex e (m_poly r) idx) = Inr it
           \<and> GetStreetNameAfterIdx e r idx =
               Inr (case dropWhile (\<lambda>s. snd s = []) (drop it (m_streets r)) of
                      [] \<Rightarrow> []
                    | s # _ \<Rightarrow>
                        if GetDistanceM e (m_poly r) (GetIterToIndex e (m_poly r) idx)
                             (GetIterToIndex e (m_poly r)
                                (max (fst s) (uint32_of_size (m_ind (GetIterToIndex e (m_poly r) idx)))))
                           < kSteetNameLinkMeters
                        then snd s else [])"
proof (cases "m_streets r = []")
  case True
  then show ?thesis
    by (simp add: GetStreetNameAfterIdx_def GetCurrentStreetNameIterAfter_def fbind_Inr)
next
  case False
  with assms have "1 < length (m_streets r)"
    by (cases "m_streets r") auto
  from street_scan_total[OF this, of 0 "m_ind (GetIterToIndex e (m_poly r) idx)"]
  obtain k where k: "k \<le> length (m_streets r)"
    and scan: "street_scan (m_streets r) (m_ind (GetIterToIndex e (m_poly r) idx)) 0 1 = Inr k"
    by auto
  from False scan have it: "GetCurrentStreetNameIterAfter r (GetIterToIndex e (m_poly r) idx) = Inr k"
    by (simp add: GetCurrentStreetNameIterAfter_def)
  have "GetStreetNameAfterIdx e r idx =
               Inr (case dropWhile (\<lambda>s. snd s = []) (drop k (m_streets r)) of
                      [] \<Rightarrow> []
                    | s # _ \<Rightarrow>
                        if GetDistanceM e (m_poly r) (GetIterToIndex e (m_poly r) idx)
                             (GetIterToIndex e (m_poly r)
                                (max (fst s) (uint32_of_size (m_ind (GetIterToIndex e (m_poly r) idx)))))
                           < kSteetNameLinkMeters
                        then snd s else [])"
    using it k
    by (simp add: GetStreetNameAfterIdx_def Let_def fbind_Inr street_name_loop_first_name)
  with k it show ?thesis by blast
qed

text \<open>
  C7. The claim is for every street table; on a table of one entry the code does not
  return a name: the scan of \<^verbatim>\<open>GetCurrentStreetNameIterAfter\<close> reads outside the vector.
  For the table \<open>(0, Main St)\<close> and the index 0 the claim gives \<open>Main St\<close>, at distance 0.
\<close>

theorem GetStreetNameAfterIdx_single_entry_table_faults:
  "m_streets one_street_route = [(0, ''Main St'')]
   \<and> GetStreetNameAfterIdx (sample_env False) one_street_route 0 = Inl OutOfRange
   \<and> GetCurrentStreetName one_street_route = Inl OutOfRange"
  by (simp add: one_street_route_def sample_route_def GetStreetNameAfterIdx_def
      GetCurrentStreetName_def GetCurrentStreetNameIterAfter_def street_scan.simps fbind_Inl Let_def)

subsection \<open>The cursor under \<^verbatim>\<open>MoveIterator\<close>\<close>

lemma closest_in_set: "closest score cs = Some b \<Longrightarrow> b \<in> set cs"
  by (induction cs arbitrary: b) (auto split: option.splits if_splits)

lemma candidates_index:
  "it \<in> set (candidates e p rect) \<Longrightarrow>
   m_ind (m_current p) \<le> m_ind it \<and> m_ind it < length (fp_points p) - 1"
  by (auto simp: candidates_def)

lemma UpdateProjectionByPrediction_cursor:
  "fp_points (snd (UpdateProjectionByPrediction e p rect predictDistance)) = fp_points p"
  "m_ind (m_current p) \<le> m_ind (m_current (snd (UpdateProjectionByPrediction e p rect predictDistance)))"
  "m_ind (m_current p) < length (fp_points p) \<Longrightarrow>
   m_ind (m_current (snd (UpdateProjectionByPrediction e p rect predictDistance))) < length (fp_points p)"
proof -
  show "fp_points (snd (UpdateProjectionByPrediction e p rect predictDistance)) = fp_points p"
    by (simp add: UpdateProjectionByPrediction_def Let_def split: option.splits)
  have res: "m_ind (m_current p) \<le> m_ind res \<and> m_ind res < length (fp_points p) - 1"
    if "closest score (candidates e p rect) = Some res" for score res
    using that by (intro candidates_index closest_in_set)
  show "m_ind (m_current p) \<le> m_ind (m_current (snd (UpdateProjectionByPrediction e p rect predictDistance)))"
    using res by (auto simp: UpdateProjectionByPrediction_def Let_def split: option.splits)
  show "m_ind (m_current (snd (UpdateProjectionByPrediction e p rect predictDistance))) < length (fp_points p)"
    if "m_ind (m_current p) < length (fp_points p)"
    using res that by (fastforce simp: UpdateProjectionByPrediction_def Let_def split: option.splits)
qed

lemma MoveIterator_step:
  "pointCount (snd (MoveIterator e r info)) = pointCount r"
  "vertexIndex r \<le> vertexIndex (snd (MoveIterator e r info))"
  "vertexIndex r < pointCount r \<Longrightarrow> vertexIndex (snd (MoveIterator e r info)) < pointCount r"
  by (simp_all add: MoveIterator_def Let_def pointCount_def vertexIndex_def
      UpdateProjectionByPrediction_cursor)

lemma MoveIterator_run_invariant:
  "vertexIndex r < pointCount r \<Longrightarrow>
   sorted (map vertexIndex (MoveIterator_run e r infos))
   \<and> (\<forall>r'\<in>set (MoveIterator_run e r infos).
         vertexIndex r \<le> vertexIndex r' \<and> vertexIndex r' < pointCount r'
         \<and> pointCount r' = pointCount r)"
proof (induction infos arbitrary: r)
  case Nil
  then show ?case by simp
next
  case (Cons info infos)
  let ?r1 = "snd (MoveIterator e r info)"
  from Cons.prems have inv: "vertexIndex ?r1 < pointCount ?r1"
    by (simp add: MoveIterator_step)
  have same: "pointCount ?r1 = pointCount r" and le: "vertexIndex r \<le> vertexIndex ?r1"
    by (simp_all add: MoveIterator_step)
  from Cons.IH[OF inv] same le inv show ?case
    by fastforce
qed

text \<open>
  C2. From a cursor on a vertex of the polyline, repeated calls of \<^verbatim>\<open>MoveIterator\<close>, for
  any sequence of fixes (so also one with timestamps that do not decrease and positions
  that advance along the route), never decrease the cursor's vertex index, and after
  every call the vertex index is below the number of points.
\<close>

theorem MoveIterator_never_moves_the_cursor_back:
  assumes "vertexIndex r < pointCount r"
  shows "sorted (map vertexIndex (r # MoveIterator_run e r infos))
       \<and> (\<forall>r'\<in>set (MoveIterator_run e r infos). vertexIndex r' < pointCount r')"
  using MoveIterator_run_invariant[OF assms, of e infos] by auto

lemma sample_move_eval:
  "map vertexIndex
     (MoveIterator_run (sample_env False) (sample_route three_points 0)
        [fix_at 0 (3 / 2), fix_at 0 (1 / 2)]) = [1, 1]"
  by (simp add: MoveIterator_def UpdateProjectionByPrediction_def candidates_def Let_def
      sample_env_def sample_route_def three_points_def fix_at_def sample_settings_def
      IsValid_def MakeFollowedPolyline_def IsPointInside_def Center_def vertexIndex_def
      upt_conv_Cons)

theorem MoveIterator_never_moves_the_cursor_back_witness:
  "vertexIndex (sample_route three_points 0) < pointCount (sample_route three_points 0)
   \<and> sorted (map vertexIndex
        (sample_route three_points 0
         # MoveIterator_run (sample_env False) (sample_route three_points 0)
             [fix_at 0 (3 / 2), fix_at 0 (1 / 2)]))
   \<and> list_all (\<lambda>r'. vertexIndex r' < pointCount r')
        (MoveIterator_run (sample_env False) (sample_route three_points 0)
           [fix_at 0 (3 / 2), fix_at 0 (1 / 2)])
   \<and> map vertexIndex
        (MoveIterator_run (sample_env False) (sample_route three_points 0)
           [fix_at 0 (3 / 2), fix_at 0 (1 / 2)]) = [1, 1]"
proof -
  have start: "vertexIndex (sample_route three_points 0) < pointCount (sample_route three_points 0)"
    by (simp add: sample_route_def three_points_def vertexIndex_def pointCount_def)
  from MoveIterator_never_moves_the_cursor_back
         [OF start, of "sample_env False" "[fix_at 0 (3 / 2), fix_at 0 (1 / 2)]"]
  have "sorted (map vertexIndex
        (sample_route three_points 0
         # MoveIterator_run (sample_env False) (sample_route three_points 0)
             [fix_at 0 (3 / 2), fix_at 0 (1 / 2)]))"
    and "list_all (\<lambda>r'. vertexIndex r' < pointCount r')
        (MoveIterator_run (sample_env False) (sample_route three_points 0)
           [fix_at 0 (3 / 2), fix_at 0 (1 / 2)])"
    unfolding list_all_iff by blast+
  with start sample_move_eval show ?thesis by blast
qed

end
